theory Spec2Isabelle
  imports Complex_Main "HOL-Library.Sublist" "HOL-Library.List_Lexorder" "HOL-Library.AList"
begin

section \<open>Python values\<close>

text \<open>
  A Python \<open>str\<close> is a sequence of Unicode code points, so it is modelled as a list of
  natural numbers. ASCII literals are written through \<open>asc\<close>; literals with Cyrillic
  letters are written as lists of their code points (U+0410..U+044F are 1040..1103, and
  U+0451 is 1105), and the text before each says which words they are.
\<close>

type_synonym ustr = "nat list"

definition asc :: "string \<Rightarrow> ustr" where
  "asc s = map of_char s"

text \<open>The exceptions the modelled code can raise.\<close>

datatype error = TypeError | KeyError | IndexError | ValueError | AttributeError

text \<open>
  A cell of a table: a string, an integer, a float (held as the rational it denotes),
  a boolean, or the missing value \<open>NaN\<close>.
\<close>

datatype cell = Str ustr | IntV int | FloatV rat | BoolV bool | NaN

subsection \<open>String operations\<close>

text \<open>
  \<open>str.lower()\<close> on the Latin and Cyrillic letters: ASCII \<open>A-Z\<close>, the Latin-1 capitals,
  and the Cyrillic capitals U+0400..U+042F. Code points of other scripts are left as
  they are.
\<close>

definition lower_cp :: "nat \<Rightarrow> nat" where
  "lower_cp c =
     (if 65 \<le> c \<and> c \<le> 90 then c + 32
      else if 192 \<le> c \<and> c \<le> 222 \<and> c \<noteq> 215 then c + 32
      else if 1040 \<le> c \<and> c \<le> 1071 then c + 32
      else if 1024 \<le> c \<and> c \<le> 1039 then c + 80
      else c)"

definition py_lower :: "ustr \<Rightarrow> ustr" where
  "py_lower s = map lower_cp s"

text \<open>\<open>kw in s\<close> for two strings: \<open>kw\<close> occurs in \<open>s\<close> as a contiguous run.\<close>

definition py_in :: "ustr \<Rightarrow> ustr \<Rightarrow> bool" where
  "py_in kw s = sublist kw s"

text \<open>\<open>any(kw in s for kw in kws)\<close>.\<close>

definition any_in :: "ustr list \<Rightarrow> ustr \<Rightarrow> bool" where
  "any_in kws s = list_ex (\<lambda>kw. py_in kw s) kws"

text \<open>The decimal digits of a natural number, and \<open>str\<close> of an \<open>int\<close>.\<close>

fun digits_of :: "nat \<Rightarrow> ustr" where
  "digits_of n = (if n < 10 then [48 + n] else digits_of (n div 10) @ [48 + n mod 10])"

declare digits_of.simps [simp del]

definition str_of_int :: "int \<Rightarrow> ustr" where
  "str_of_int i = (if i < 0 then 45 # digits_of (nat (- i)) else digits_of (nat i))"

text \<open>
  \<open>str\<close> of a float. Python prints the shortest decimal that reads back as the same
  float; the model prints the integer part, a point and six decimals, so the two may
  differ in the digits after the point. No claim below depends on the digits printed.
\<close>

definition str_of_float :: "rat \<Rightarrow> ustr" where
  "str_of_float r =
     (let a = \<bar>r\<bar>; whole = nat \<lfloor>a\<rfloor>; micro = nat \<lfloor>(a - of_int \<lfloor>a\<rfloor>) * 1000000\<rfloor>
      in (if r < 0 then [45] else []) @ digits_of whole @ [46] @ tl (digits_of (1000000 + micro)))"

fun py_str :: "cell \<Rightarrow> ustr" where
  "py_str (Str s) = s"
| "py_str (IntV i) = str_of_int i"
| "py_str (FloatV r) = str_of_float r"
| "py_str (BoolV b) = (if b then asc ''True'' else asc ''False'')"
| "py_str NaN = asc ''nan''"

text \<open>
  Ordering comparisons of a cell with an integer constant. A string raises
  \<open>TypeError\<close>; every comparison with \<open>NaN\<close> is false.
\<close>

fun py_gt :: "cell \<Rightarrow> int \<Rightarrow> error + bool" where
  "py_gt (Str s) n = Inl TypeError"
| "py_gt (IntV i) n = Inr (i > n)"
| "py_gt (FloatV r) n = Inr (r > of_int n)"
| "py_gt (BoolV b) n = Inr ((if b then 1 else 0) > n)"
| "py_gt NaN n = Inr False"

fun py_le :: "cell \<Rightarrow> int \<Rightarrow> error + bool" where
  "py_le (Str s) n = Inl TypeError"
| "py_le (IntV i) n = Inr (i \<le> n)"
| "py_le (FloatV r) n = Inr (r \<le> of_int n)"
| "py_le (BoolV b) n = Inr ((if b then 1 else 0) \<le> n)"
| "py_le NaN n = Inr False"

subsection \<open>More string operations\<close>

text \<open>
  The code points that \<open>str.strip()\<close>, \<open>str.isspace()\<close> and the regular expression
  class \<open>\s\<close> treat as whitespace.
\<close>

definition is_space :: "nat \<Rightarrow> bool" where
  "is_space c =
     ((9 \<le> c \<and> c \<le> 13) \<or> (28 \<le> c \<and> c \<le> 32) \<or> c = 133 \<or> c = 160 \<or> c = 5760
      \<or> (8192 \<le> c \<and> c \<le> 8202) \<or> c = 8232 \<or> c = 8233 \<or> c = 8239 \<or> c = 8287
      \<or> c = 12288)"

text \<open>
  The decimal digits (\<open>str.isdecimal()\<close>, the regular expression class \<open>\d\<close>, and the
  digits that \<open>int()\<close> and \<open>float()\<close> read): in every script the ten digits stand in a
  row, from 0 to 9. \<open>decimal_blocks\<close> lists the code point of each script's 0, the
  ASCII digits first (Unicode 14.0, the character database of Python 3.11).
\<close>

definition decimal_blocks :: "nat list" where
  "decimal_blocks =
     [48, 1632, 1776, 1984, 2406, 2534, 2662, 2790, 2918, 3046, 3174, 3302, 3430, 3558, 3664,
      3792, 3872, 4160, 4240, 6112, 6160, 6470, 6608, 6784, 6800, 6992, 7088, 7232, 7248,
      42528, 43216, 43264, 43472, 43504, 43600, 44016, 65296, 66720, 68912, 69734, 69872,
      69942, 70096, 70384, 70736, 70864, 71248, 71360, 71472, 71904, 72016, 72784, 73040,
      73120, 92768, 92864, 93008, 120782, 120792, 120802, 120812, 120822, 123200, 123632,
      125264, 130032]"

definition digit_block :: "nat \<Rightarrow> nat option" where
  "digit_block c = find (\<lambda>b. b \<le> c \<and> c < b + 10) decimal_blocks"

definition is_digit :: "nat \<Rightarrow> bool" where
  "is_digit c = (digit_block c \<noteq> None)"

definition digit_value :: "nat \<Rightarrow> nat" where
  "digit_value c = (case digit_block c of None \<Rightarrow> 0 | Some b \<Rightarrow> c - b)"

text \<open>
  \<open>str.isdigit()\<close> holds for the decimal digits and for other digit characters, such
  as the superscript and the circled digits; these are their ranges of code points
  (Unicode 14.0). \<open>int()\<close> and \<open>float()\<close> do not read them.
\<close>

definition other_digit_ranges :: "(nat \<times> nat) list" where
  "other_digit_ranges =
     [(178, 179), (185, 185), (4969, 4977), (6618, 6618), (8304, 8304), (8308, 8313),
      (8320, 8329), (9312, 9320), (9332, 9340), (9352, 9360), (9450, 9450), (9461, 9469),
      (9471, 9471), (10102, 10110), (10112, 10120), (10122, 10130), (68160, 68163),
      (69216, 69224), (69714, 69722), (127232, 127242)]"

definition is_digit_char :: "nat \<Rightarrow> bool" where
  "is_digit_char c =
     (is_digit c \<or> find (\<lambda>r. fst r \<le> c \<and> c \<le> snd r) other_digit_ranges \<noteq> None)"

text \<open>\<open>s.strip()\<close>.\<close>

definition py_strip :: "ustr \<Rightarrow> ustr" where
  "py_strip s = rev (dropWhile is_space (rev (dropWhile is_space s)))"

text \<open>\<open>s.replace('\xa0', ' ')\<close>: every no-break space becomes a space.\<close>

definition replace_nbsp :: "ustr \<Rightarrow> ustr" where
  "replace_nbsp s = map (\<lambda>c. if c = 160 then 32 else c) s"

text \<open>
  \<open>s.split(sep)\<close> for a one-character separator: the pieces between the separators,
  always at least one piece. \<open>acc\<close> is the piece being read, reversed.
\<close>

fun split_acc :: "nat \<Rightarrow> ustr \<Rightarrow> ustr \<Rightarrow> ustr list" where
  "split_acc sep acc [] = [rev acc]"
| "split_acc sep acc (c # cs) =
     (if c = sep then rev acc # split_acc sep [] cs else split_acc sep (c # acc) cs)"

definition py_split :: "nat \<Rightarrow> ustr \<Rightarrow> ustr list" where
  "py_split sep s = split_acc sep [] s"

text \<open>\<open>sep.join(parts)\<close>.\<close>

fun py_join :: "ustr \<Rightarrow> ustr list \<Rightarrow> ustr" where
  "py_join sep [] = []"
| "py_join sep [p] = p"
| "py_join sep (p # q # ps) = p @ sep @ py_join sep (q # ps)"

text \<open>\<open>xs[i]\<close> with Python's negative indices; \<open>IndexError\<close> out of range.\<close>

definition py_index :: "'a list \<Rightarrow> int \<Rightarrow> error + 'a" where
  "py_index xs i =
     (if 0 \<le> i \<and> i < int (length xs) then Inr (xs ! nat i)
      else if i < 0 \<and> - i \<le> int (length xs) then Inr (xs ! nat (int (length xs) + i))
      else Inl IndexError)"

text \<open>\<open>s.isdigit()\<close>: not empty, and digit characters only.\<close>

definition py_isdigit :: "ustr \<Rightarrow> bool" where
  "py_isdigit s = (s \<noteq> [] \<and> list_all is_digit_char s)"

text \<open>The number a run of decimal digits denotes.\<close>

definition nat_of_digits :: "ustr \<Rightarrow> nat" where
  "nat_of_digits ds = foldl (\<lambda>a c. 10 * a + digit_value c) 0 ds"

text \<open>
  \<open>int(s)\<close> for a string: surrounding whitespace is dropped, one sign is allowed, and
  the decimal digits may be grouped by single underscores; anything else raises
  \<open>ValueError\<close>. The whitespace that \<open>int()\<close> drops is that of \<open>strip()\<close> without the four
  separator controls U+001C..U+001F. (The interpreter's configurable cap on the number
  of digits is not modelled.)
\<close>

definition is_int_space :: "nat \<Rightarrow> bool" where
  "is_int_space c = (is_space c \<and> \<not> (28 \<le> c \<and> c \<le> 31))"

definition int_strip :: "ustr \<Rightarrow> ustr" where
  "int_strip s = rev (dropWhile is_int_space (rev (dropWhile is_int_space s)))"

definition valid_int_body :: "ustr \<Rightarrow> bool" where
  "valid_int_body b =
     (b \<noteq> [] \<and> list_all (\<lambda>c. is_digit c \<or> c = 95) b \<and> is_digit (hd b) \<and> is_digit (last b)
      \<and> \<not> sublist [95, 95] b)"

definition int_body :: "ustr \<Rightarrow> error + int" where
  "int_body b =
     (if valid_int_body b then Inr (int (nat_of_digits (filter is_digit b))) else Inl ValueError)"

definition py_int :: "ustr \<Rightarrow> error + int" where
  "py_int s =
     (case int_strip s of
        [] \<Rightarrow> Inl ValueError
      | c # cs \<Rightarrow>
          if c = 45 then (case int_body cs of Inl e \<Rightarrow> Inl e | Inr n \<Rightarrow> Inr (- n))
          else if c = 43 then int_body cs
          else int_body (c # cs))"

text \<open>
  \<open>float(s)\<close> on the strings the salary parsers hand to it, which are empty or made of
  digit characters (\<open>isdigit\<close>): a run of decimal digits gives its number; the empty
  string, and a string with a digit character that is not a decimal digit (a
  superscript digit, say), raise \<open>ValueError\<close>.
\<close>

definition py_float :: "ustr \<Rightarrow> error + rat" where
  "py_float s =
     (if s \<noteq> [] \<and> list_all is_digit s then Inr (of_nat (nat_of_digits s))
      else Inl ValueError)"

section \<open>Tables\<close>

text \<open>
  A pandas \<open>DataFrame\<close>: the row labels (its index) and the columns in order, each with
  its name, its dtype and one cell per row. A \<open>Series\<close> is a column.
\<close>

datatype dtype = ObjectT | Int64T | Float64T | BoolT

datatype column = Column (dtype: dtype) (vals: "cell list")

record dataframe =
  index :: "cell list"
  cols :: "(ustr \<times> column) list"

definition columns :: "dataframe \<Rightarrow> ustr list" where
  "columns df = map fst (cols df)"

definition nrows :: "dataframe \<Rightarrow> nat" where
  "nrows df = length (index df)"

text \<open>\<open>name in df.columns\<close>.\<close>

definition has_col :: "dataframe \<Rightarrow> ustr \<Rightarrow> bool" where
  "has_col df name = (name \<in> set (columns df))"

text \<open>\<open>df[name]\<close>: \<open>KeyError\<close> when there is no such column.\<close>

definition get_col :: "dataframe \<Rightarrow> ustr \<Rightarrow> error + column" where
  "get_col df name = (case map_of (cols df) name of None \<Rightarrow> Inl KeyError | Some c \<Rightarrow> Inr c)"

text \<open>
  \<open>df[name] = series\<close>: an existing column is replaced where it stands, a new one is
  appended as the last column.
\<close>

definition set_col :: "dataframe \<Rightarrow> ustr \<Rightarrow> column \<Rightarrow> dataframe" where
  "set_col df name c = df\<lparr>cols := AList.update name c (cols df)\<rparr>"

text \<open>\<open>df.drop(columns=names)\<close>: \<open>KeyError\<close> when one of the names is not a column.\<close>

definition drop_cols :: "dataframe \<Rightarrow> ustr list \<Rightarrow> error + dataframe" where
  "drop_cols df names =
     (if list_all (has_col df) names
      then Inr (df\<lparr>cols := filter (\<lambda>p. fst p \<notin> set names) (cols df)\<rparr>)
      else Inl KeyError)"

text \<open>
  The tables the stages are meant for: every column has one cell per row, and no two
  columns share a name.
\<close>

definition wf_df :: "dataframe \<Rightarrow> bool" where
  "wf_df df =
     (list_all (\<lambda>p. length (vals (snd p)) = nrows df) (cols df) \<and> distinct (columns df))"

text \<open>The results of a per-cell or per-row function, stopping at the first exception.\<close>

fun collect :: "(error + 'a) list \<Rightarrow> error + 'a list" where
  "collect [] = Inr []"
| "collect (x # xs) =
     (case x of
        Inl e \<Rightarrow> Inl e
      | Inr v \<Rightarrow> (case collect xs of Inl e \<Rightarrow> Inl e | Inr vs \<Rightarrow> Inr (v # vs)))"

text \<open>
  The dtype pandas gives to a column built from computed cells; an empty result keeps
  the dtype \<open>d\<close> of the column it was computed from.
\<close>

fun is_int_cell :: "cell \<Rightarrow> bool" where
  "is_int_cell (IntV i) = True"
| "is_int_cell c = False"

fun is_bool_cell :: "cell \<Rightarrow> bool" where
  "is_bool_cell (BoolV b) = True"
| "is_bool_cell c = False"

fun is_number_cell :: "cell \<Rightarrow> bool" where
  "is_number_cell (IntV i) = True"
| "is_number_cell (FloatV r) = True"
| "is_number_cell NaN = True"
| "is_number_cell c = False"

definition infer_dtype :: "dtype \<Rightarrow> cell list \<Rightarrow> dtype" where
  "infer_dtype d vs =
     (if vs = [] then d
      else if list_all is_int_cell vs then Int64T
      else if list_all is_bool_cell vs then BoolT
      else if list_all is_number_cell vs then Float64T
      else ObjectT)"

text \<open>\<open>series.apply(f)\<close> for a function that may raise, and for one that cannot.\<close>

definition series_apply :: "(cell \<Rightarrow> error + cell) \<Rightarrow> column \<Rightarrow> error + column" where
  "series_apply f c =
     (case collect (map f (vals c)) of
        Inl e \<Rightarrow> Inl e
      | Inr vs \<Rightarrow> Inr (Column (infer_dtype (dtype c) vs) vs))"

definition series_map :: "(cell \<Rightarrow> cell) \<Rightarrow> column \<Rightarrow> column" where
  "series_map f c = Column (infer_dtype (dtype c) (map f (vals c))) (map f (vals c))"

text \<open>
  The rows of a table, as \<open>df.apply(f, axis=1)\<close> hands them to \<open>f\<close>: the column names
  with the row's cells. In a table of pandas every column has one cell per row
  (\<open>wf_df\<close>), so \<open>row_at\<close> reads within the columns.
\<close>

type_synonym row = "(ustr \<times> cell) list"

definition row_at :: "dataframe \<Rightarrow> nat \<Rightarrow> row" where
  "row_at df i = map (\<lambda>p. (fst p, vals (snd p) ! i)) (cols df)"

definition rows :: "dataframe \<Rightarrow> row list" where
  "rows df = map (row_at df) [0..<nrows df]"

definition apply_rows :: "(row \<Rightarrow> error + 'a) \<Rightarrow> dataframe \<Rightarrow> error + 'a list" where
  "apply_rows f df = collect (map f (rows df))"

text \<open>
  The container that the stages pass along (its \<open>metadata\<close> dictionary, which no stage
  reads or writes, is left out). \<open>feature_matrix\<close> holds the rows of the feature table.
\<close>

record container =
  raw_data :: "dataframe option"
  processed_data :: "dataframe option"
  feature_matrix :: "cell list list option"
  target_vector :: "cell list option"
  feature_labels :: "ustr list"

section \<open>The labeling stage\<close>

text \<open>\<open>row.get(key, default)\<close>.\<close>

definition row_get :: "row \<Rightarrow> ustr \<Rightarrow> cell \<Rightarrow> cell" where
  "row_get r k d = (case map_of r k of None \<Rightarrow> d | Some v \<Rightarrow> v)"

text \<open>
  The keyword lists of \<open>DeveloperLevelLabelerStage\<close>; \<open>LabelGradeHandler\<close> has the same
  three lists. The Russian keywords are, in Latin letters: \<open>stazher\<close> (in its two
  spellings), \<open>mladshiy\<close> and \<open>nachinayushchiy\<close> among the Junior indicators;
  \<open>vedushchiy\<close>, \<open>glavnyy\<close> and \<open>rukovoditel\<close> among the Senior indicators; \<open>midl\<close> and
  \<open>midll\<close> among the Middle indicators.
\<close>

definition JUNIOR_INDICATORS :: "ustr list" where
  "JUNIOR_INDICATORS =
     [asc ''junior'', asc ''jun '', asc ''jr '', asc ''trainee'',
      [1089, 1090, 1072, 1078, 1077, 1088],
      [1089, 1090, 1072, 1078, 1105, 1088],
      asc ''intern'',
      [1084, 1083, 1072, 1076, 1096, 1080, 1081],
      [1085, 1072, 1095, 1080, 1085, 1072, 1102, 1097, 1080, 1081]]"

definition SENIOR_INDICATORS :: "ustr list" where
  "SENIOR_INDICATORS =
     [asc ''senior'', asc ''sr '', asc ''lead'', asc ''principal'', asc ''staff'',
      [1074, 1077, 1076, 1091, 1097, 1080, 1081],
      [1075, 1083, 1072, 1074, 1085, 1099, 1081],
      [1088, 1091, 1082, 1086, 1074, 1086, 1076, 1080, 1090, 1077, 1083, 1100],
      asc ''team lead'', asc ''architect'', asc ''head of'', asc ''expert'']"

definition MIDDLE_INDICATORS :: "ustr list" where
  "MIDDLE_INDICATORS =
     [asc ''middle'', asc ''mid '', [1084, 1080, 1076, 1083], [1084, 1080, 1076, 1083, 1083]]"

definition col_job_title :: ustr where
  "col_job_title = asc ''_job_title''"

definition col_experience_months :: ustr where
  "col_experience_months = asc ''experience_months''"

definition col_developer_level :: ustr where
  "col_developer_level = asc ''developer_level''"

text \<open>
  \<open>DeveloperLevelLabelerStage._determine_level\<close>. The experience is compared only in
  the branch that is taken, so a cell that cannot be compared raises only there.
\<close>

definition determine_level :: "row \<Rightarrow> error + ustr" where
  "determine_level r =
     (let job_title = py_lower (py_str (row_get r col_job_title (Str [])));
          experience_months = row_get r col_experience_months (IntV 0);
          has_junior = any_in JUNIOR_INDICATORS job_title;
          has_senior = any_in SENIOR_INDICATORS job_title;
          has_middle = any_in MIDDLE_INDICATORS job_title
      in if has_senior \<and> has_junior then
           (case py_gt experience_months 36 of
              Inl e \<Rightarrow> Inl e
            | Inr b \<Rightarrow> Inr (if b then asc ''Senior'' else asc ''Junior''))
         else if has_senior then Inr (asc ''Senior'')
         else if has_junior then
           (case py_gt experience_months 60 of
              Inl e \<Rightarrow> Inl e
            | Inr b \<Rightarrow> Inr (if b then asc ''Middle'' else asc ''Junior''))
         else if has_middle then
           (case py_gt experience_months 96 of
              Inl e \<Rightarrow> Inl e
            | Inr b \<Rightarrow> Inr (if b then asc ''Senior'' else asc ''Middle''))
         else
           (case py_le experience_months 18 of
              Inl e \<Rightarrow> Inl e
            | Inr b \<Rightarrow>
                if b then Inr (asc ''Junior'')
                else (case py_le experience_months 60 of
                        Inl e \<Rightarrow> Inl e
                      | Inr b' \<Rightarrow> Inr (if b' then asc ''Middle'' else asc ''Senior''))))"

text \<open>The raw job-title column.\<close>

definition job_title_col :: ustr where
  "job_title_col =
     [1048, 1097, 1077, 1090, 32, 1088, 1072, 1073, 1086, 1090, 1091, 32, 1085, 1072, 32,
      1076, 1086, 1083, 1078, 1085, 1086, 1089, 1090, 1100, 58]"

text \<open>\<open>series.fillna('')\<close> and \<open>series.astype(str)\<close>, cell by cell.\<close>

fun fillna_empty :: "cell \<Rightarrow> cell" where
  "fillna_empty NaN = Str []"
| "fillna_empty c = c"

definition astype_str :: "cell \<Rightarrow> cell" where
  "astype_str c = Str (py_str c)"

text \<open>\<open>DeveloperLevelLabelerStage.execute\<close>.\<close>

definition labeler_columns_to_remove :: "dataframe \<Rightarrow> ustr list" where
  "labeler_columns_to_remove df =
     [col_job_title]
     @ (if has_col df job_title_col then [job_title_col] else [])
     @ (if has_col df col_experience_months then [col_experience_months] else [])"

definition labeler_titles :: "dataframe \<Rightarrow> error + column" where
  "labeler_titles df =
     (if has_col df job_title_col then
        (case get_col df job_title_col of
           Inl e \<Rightarrow> Inl e
         | Inr c \<Rightarrow> Inr (Column ObjectT (map (astype_str \<circ> fillna_empty) (vals c))))
      else Inr (Column ObjectT (replicate (nrows df) (Str []))))"

definition labeler_execute :: "container \<Rightarrow> error + container" where
  "labeler_execute c =
     (case processed_data c of
        None \<Rightarrow> Inl AttributeError
      | Some df \<Rightarrow>
          (case labeler_titles df of
             Inl e \<Rightarrow> Inl e
           | Inr titles \<Rightarrow>
               (let df1 = set_col df col_job_title titles in
                case apply_rows determine_level df1 of
                  Inl e \<Rightarrow> Inl e
                | Inr labels \<Rightarrow>
                    (let df2 = set_col df1 col_developer_level (Column ObjectT (map Str labels)) in
                     case drop_cols df2 (labeler_columns_to_remove df2) of
                       Inl e \<Rightarrow> Inl e
                     | Inr df3 \<Rightarrow>
                         (case get_col df3 col_developer_level of
                            Inl e \<Rightarrow> Inl e
                          | Inr t \<Rightarrow>
                              Inr (c\<lparr>target_vector := Some (vals t),
                                      processed_data := Some df3\<rparr>))))))"

text \<open>
  The decision rules as the specification words them, on the lowercased title and the
  months of experience.
\<close>

definition labeling_rules :: "ustr \<Rightarrow> int \<Rightarrow> ustr" where
  "labeling_rules title months =
     (if any_in SENIOR_INDICATORS title \<and> any_in JUNIOR_INDICATORS title then
        (if months > 36 then asc ''Senior'' else asc ''Junior'')
      else if any_in SENIOR_INDICATORS title then asc ''Senior''
      else if any_in JUNIOR_INDICATORS title then
        (if months > 60 then asc ''Middle'' else asc ''Junior'')
      else if any_in MIDDLE_INDICATORS title then
        (if months > 96 then asc ''Senior'' else asc ''Middle'')
      else if months \<le> 18 then asc ''Junior''
      else if months \<le> 60 then asc ''Middle''
      else asc ''Senior'')"

text \<open>
  The label when the months of experience count as zero: what the rules leave of the
  title keywords alone.
\<close>

definition title_only_rules :: "ustr \<Rightarrow> ustr" where
  "title_only_rules title =
     (if any_in JUNIOR_INDICATORS title then asc ''Junior''
      else if any_in SENIOR_INDICATORS title then asc ''Senior''
      else if any_in MIDDLE_INDICATORS title then asc ''Middle''
      else asc ''Junior'')"

subsection \<open>The per-row function of the chained variant\<close>

text \<open>
  \<open>LabelGradeHandler._process._label\<close>. The title column \<open>_title\<close> is lowercased before the
  rows are labeled, so the function reads it as it is; a cell that is not a string makes
  \<open>kw in title\<close> raise \<open>TypeError\<close>.
\<close>

definition col_title :: ustr where
  "col_title = asc ''_title''"

definition handler_label :: "row \<Rightarrow> error + ustr" where
  "handler_label r =
     (case map_of r col_title of
        None \<Rightarrow> Inl KeyError
      | Some t \<Rightarrow>
          (let exp = row_get r col_experience_months (IntV 0) in
           case t of
             Str title \<Rightarrow>
               (let is_junior = any_in JUNIOR_INDICATORS title;
                    is_senior = any_in SENIOR_INDICATORS title;
                    is_middle = any_in MIDDLE_INDICATORS title
                in if is_senior \<and> is_junior then
                     (case py_gt exp 36 of
                        Inl e \<Rightarrow> Inl e
                      | Inr b \<Rightarrow> Inr (if b then asc ''Senior'' else asc ''Junior''))
                   else if is_senior then Inr (asc ''Senior'')
                   else if is_junior then
                     (case py_gt exp 60 of
                        Inl e \<Rightarrow> Inl e
                      | Inr b \<Rightarrow> Inr (if b then asc ''Middle'' else asc ''Junior''))
                   else if is_middle then
                     (case py_gt exp 96 of
                        Inl e \<Rightarrow> Inl e
                      | Inr b \<Rightarrow> Inr (if b then asc ''Senior'' else asc ''Middle''))
                   else
                     (case py_le exp 18 of
                        Inl e \<Rightarrow> Inl e
                      | Inr b \<Rightarrow>
                          if b then Inr (asc ''Junior'')
                          else (case py_le exp 60 of
                                  Inl e \<Rightarrow> Inl e
                                | Inr b' \<Rightarrow> Inr (if b' then asc ''Middle'' else asc ''Senior''))))
           | _ \<Rightarrow> Inl TypeError))"

subsection \<open>Example tables\<close>

text \<open>A container whose working table is \<open>df\<close> and whose other fields are unset.\<close>

definition container_of :: "dataframe \<Rightarrow> container" where
  "container_of df =
     \<lparr>raw_data = None, processed_data = Some df, feature_matrix = None,
      target_vector = None, feature_labels = []\<rparr>"

definition demo_table :: dataframe where
  "demo_table =
     \<lparr>index = [IntV 0, IntV 1],
      cols = [(job_title_col, Column ObjectT [Str (asc ''Junior Team Lead''), Str (asc ''Junior Team Lead'')]),
              (col_experience_months, Column Int64T [IntV 40, IntV 10])]\<rparr>"

definition no_experience_table :: dataframe where
  "no_experience_table =
     \<lparr>index = [IntV 0],
      cols = [(job_title_col, Column ObjectT [Str (asc ''Junior Team Lead'')])]\<rparr>"

section \<open>Personal information\<close>

text \<open>The male literals: the Russian word for a man (\<open>Muzhchina\<close>) and \<open>Male\<close>.\<close>

definition male_values :: "ustr list" where
  "male_values = [[1052, 1091, 1078, 1095, 1080, 1085, 1072], asc ''Male'']"

text \<open>\<open>PersonalInfoExtractorStage._parse_gender\<close>.\<close>

fun parse_gender :: "cell \<Rightarrow> error + int" where
  "parse_gender (Str value) =
     (case py_index (py_split 44 value) 0 of
        Inl e \<Rightarrow> Inl e
      | Inr part \<Rightarrow> Inr (if py_strip part \<in> set male_values then 0 else 1))"
| "parse_gender v = Inr 0"

text \<open>
  \<open>ParseGenderAgeBirthdayHandler._process.extract_gender\<close>: no type check, so a cell
  that is not a string has no \<open>split\<close> and the call raises \<open>AttributeError\<close>.
\<close>

fun extract_gender :: "cell \<Rightarrow> error + int" where
  "extract_gender (Str value) =
     (case py_index (py_split 44 value) 0 of
        Inl e \<Rightarrow> Inl e
      | Inr raw_gender \<Rightarrow> Inr (if py_strip raw_gender \<in> set male_values then 0 else 1))"
| "extract_gender v = Inl AttributeError"

text \<open>The first comma-separated token of a string, as the specification words it.\<close>

definition first_token :: "ustr \<Rightarrow> ustr" where
  "first_token s = takeWhile (\<lambda>c. c \<noteq> 44) s"

text \<open>\<open>PersonalInfoExtractorStage._parse_age\<close>.\<close>

fun parse_age :: "cell \<Rightarrow> error + int" where
  "parse_age (Str value) =
     (let parts = py_split 44 value in
      if length parts < 2 then Inr (- 1)
      else
        (case py_index parts 1 of
           Inl e \<Rightarrow> Inl e
         | Inr p \<Rightarrow>
             (case py_index (py_split 32 (replace_nbsp (py_strip p))) 0 of
                Inl e \<Rightarrow> Inl e
              | Inr age_str \<Rightarrow>
                  (case py_int age_str of
                     Inl ValueError \<Rightarrow> Inr (- 1)
                   | Inl e \<Rightarrow> Inl e
                   | Inr n \<Rightarrow> Inr n))))"
| "parse_age v = Inr (- 1)"

text \<open>The month names of \<open>month_map\<close>, English and Russian, with their numbers.\<close>

definition month_map :: "(ustr \<times> int) list" where
  "month_map =
     [(asc ''January'', 0), ([1103, 1085, 1074, 1072, 1088, 1103], 0),
      (asc ''February'', 1), ([1092, 1077, 1074, 1088, 1072, 1083, 1103], 1),
      (asc ''March'', 2), ([1084, 1072, 1088, 1090, 1072], 2),
      (asc ''April'', 3), ([1072, 1087, 1088, 1077, 1083, 1103], 3),
      (asc ''May'', 4), ([1084, 1072, 1103], 4),
      (asc ''June'', 5), ([1080, 1102, 1085, 1103], 5),
      (asc ''July'', 6), ([1080, 1102, 1083, 1103], 6),
      (asc ''August'', 7), ([1072, 1074, 1075, 1091, 1089, 1090, 1072], 7),
      (asc ''September'', 8), ([1089, 1077, 1085, 1090, 1103, 1073, 1088, 1103], 8),
      (asc ''October'', 9), ([1086, 1082, 1090, 1103, 1073, 1088, 1103], 9),
      (asc ''November'', 10), ([1085, 1086, 1103, 1073, 1088, 1103], 10),
      (asc ''December'', 11), ([1076, 1077, 1082, 1072, 1073, 1088, 1103], 11)]"

text \<open>
  \<open>PersonalInfoExtractorStage._parse_birth_month\<close>. The index \<open>[-2]\<close> is not guarded: a
  third token with fewer than two space-separated words raises \<open>IndexError\<close>.
\<close>

fun parse_birth_month :: "cell \<Rightarrow> error + int" where
  "parse_birth_month (Str value) =
     (let parts = py_split 44 value in
      if length parts < 3 then Inr (- 1)
      else
        (case py_index parts 2 of
           Inl e \<Rightarrow> Inl e
         | Inr p \<Rightarrow>
             (case py_index (py_split 32 (replace_nbsp (py_strip p))) (- 2) of
                Inl e \<Rightarrow> Inl e
              | Inr month_str \<Rightarrow>
                  Inr (case map_of month_map month_str of None \<Rightarrow> - 1 | Some m \<Rightarrow> m))))"
| "parse_birth_month v = Inr (- 1)"

section \<open>Resume freshness\<close>

text \<open>
  The year of a date string: the integer in the third \<open>.\<close>-separated field, up to its
  first space. \<open>IndexError\<close> when there is no third field, \<open>ValueError\<close> when the token
  is not an integer.
\<close>

definition resume_year :: "ustr \<Rightarrow> error + int" where
  "resume_year date_str =
     (case py_index (py_split 46 date_str) 2 of
        Inl e \<Rightarrow> Inl e
      | Inr field \<Rightarrow>
          (case py_index (py_split 32 field) 0 of
             Inl e \<Rightarrow> Inl e
           | Inr token \<Rightarrow> py_int token))"

text \<open>
  \<open>MiscExtractorStage._is_old_resume\<close>: the handler catches \<open>IndexError\<close> and
  \<open>ValueError\<close> only.
\<close>

fun is_old_resume :: "cell \<Rightarrow> error + int" where
  "is_old_resume (Str date_str) =
     (case resume_year date_str of
        Inr year \<Rightarrow> Inr (if year \<le> 2018 then 1 else 0)
      | Inl IndexError \<Rightarrow> Inr 0
      | Inl ValueError \<Rightarrow> Inr 0
      | Inl e \<Rightarrow> Inl e)"
| "is_old_resume v = Inr 0"

text \<open>
  \<open>ParseResumeHandler._process.is_old\<close>: no type check, and a bare \<open>except\<close> that turns
  every exception into 0.
\<close>

fun is_old :: "cell \<Rightarrow> error + int" where
  "is_old (Str date_string) =
     (case resume_year date_string of
        Inr year \<Rightarrow> Inr (if year > 2018 then 0 else 1)
      | Inl e \<Rightarrow> Inr 0)"
| "is_old v = Inr 0"

text \<open>
  The year token as the specification words it: the third \<open>.\<close>-separated field, cut at
  its first space, when the string has a third field.
\<close>

definition year_token :: "ustr \<Rightarrow> ustr option" where
  "year_token s =
     (if length (py_split 46 s) < 3 then None
      else Some (takeWhile (\<lambda>c. c \<noteq> 32) (py_split 46 s ! 2)))"

text \<open>
  Whether a resume is old, as the specification words it: 1 exactly when the cell is a
  string whose year token parses as an integer that is at most 2018.
\<close>

definition resume_old_spec :: "cell \<Rightarrow> int" where
  "resume_old_spec v =
     (case v of
        Str s \<Rightarrow>
          (case year_token s of
             None \<Rightarrow> 0
           | Some token \<Rightarrow>
               (case py_int token of Inr year \<Rightarrow> (if year \<le> 2018 then 1 else 0) | Inl e \<Rightarrow> 0))
      | _ \<Rightarrow> 0)"

section \<open>Salary\<close>

text \<open>
  \<open>CURRENCY_RATES\<close>: the rate of each currency descriptor into rubles. Floats are held
  as the rationals their literals denote.
\<close>

definition CURRENCY_RATES :: "(ustr \<times> rat) list" where
  "CURRENCY_RATES =
     [([1088, 1091, 1073, 46], 1),
      (asc ''USD'', 7335 / 100),
      (asc ''RUB'', 1),
      (asc ''KZT'', 18 / 100),
      ([1073, 1077, 1083, 46, 32, 1088, 1091, 1073, 46], 228 / 100),
      (asc ''EUR'', 8586 / 100),
      ([1075, 1088, 1085, 46], 272 / 100),
      ([1089, 1091, 1084], 5 / 1000),
      (asc ''KGS'', 98 / 100),
      (asc ''UAH'', 25 / 10),
      (asc ''BYN'', 25 / 10),
      (asc ''AZN'', 411 / 10),
      (asc ''som'', 5 / 1000)]"

text \<open>
  The loop over the tokens, shared by both variants: digit-only tokens are appended to
  the amount; the first other token ends the loop, and the currency is that token and
  the ones after it, joined by spaces.
\<close>

fun scan_salary :: "ustr \<Rightarrow> ustr list \<Rightarrow> ustr \<times> ustr" where
  "scan_salary digits [] = (digits, [])"
| "scan_salary digits (token # rest) =
     (if py_isdigit token then scan_salary (digits @ token) rest
      else (digits, py_join [32] (token # rest)))"

text \<open>\<open>SalaryExtractorStage._normalize_salary\<close>.\<close>

fun normalize_salary :: "cell \<Rightarrow> error + rat" where
  "normalize_salary (Str salary_str) =
     (let cleaned = py_split 32 (py_strip (replace_nbsp salary_str));
          (digits, currency) = scan_salary [] cleaned
      in if digits = [] then Inr 0
         else
           (case py_float digits of
              Inl ValueError \<Rightarrow> Inr 0
            | Inl e \<Rightarrow> Inl e
            | Inr amount \<Rightarrow>
                Inr (amount * (case map_of CURRENCY_RATES (py_strip currency) of
                                 None \<Rightarrow> 1 | Some rate \<Rightarrow> rate))))"
| "normalize_salary v = Inr 0"


section \<open>Experience\<close>

text \<open>
  The year words (\<open>god\<close>, \<open>goda\<close>, \<open>let\<close> in Latin letters) and the month words
  (\<open>mesyats\<close>, \<open>mesyatsa\<close>, \<open>mesyatsev\<close>), in the order of the pattern.
\<close>

definition YEAR_WORDS :: "ustr list" where
  "YEAR_WORDS = [[1075, 1086, 1076], [1075, 1086, 1076, 1072], [1083, 1077, 1090]]"

definition MONTH_WORDS :: "ustr list" where
  "MONTH_WORDS =
     [[1084, 1077, 1089, 1103, 1094], [1084, 1077, 1089, 1103, 1094, 1072],
      [1084, 1077, 1089, 1103, 1094, 1077, 1074]]"

text \<open>
  The regular expression \<open>(\d+)\s*(?:w1|w2|w3)\<close>, run as the backtracking matcher runs
  it. \<open>match_spaces_words\<close> is \<open>\s*(?:w1|w2|w3)\<close> at the start of the text: it first
  takes one more whitespace character, and falls back to the words. \<open>match_number\<close> is
  the whole pattern at the start of the text: \<open>\d+\<close> first takes one more digit, and
  falls back to ending the group; it returns group 1. \<open>re_search\<close> tries the start
  positions from left to right.
\<close>

fun match_spaces_words :: "ustr list \<Rightarrow> ustr \<Rightarrow> bool" where
  "match_spaces_words ws [] = list_ex (\<lambda>w. prefix w []) ws"
| "match_spaces_words ws (c # cs) =
     ((is_space c \<and> match_spaces_words ws cs) \<or> list_ex (\<lambda>w. prefix w (c # cs)) ws)"

fun match_number :: "ustr list \<Rightarrow> ustr \<Rightarrow> ustr option" where
  "match_number ws [] = None"
| "match_number ws (c # cs) =
     (if is_digit c then
        (case match_number ws cs of
           Some g \<Rightarrow> Some (c # g)
         | None \<Rightarrow> if match_spaces_words ws cs then Some [c] else None)
      else None)"

fun re_search :: "ustr list \<Rightarrow> ustr \<Rightarrow> ustr option" where
  "re_search ws [] = None"
| "re_search ws (c # cs) =
     (case match_number ws (c # cs) of Some g \<Rightarrow> Some g | None \<Rightarrow> re_search ws cs)"

text \<open>
  \<open>ExperienceExtractorStage._extract_months\<close>; the chained variant's
  \<open>ParseExperienceHandler._process.extract\<close> is the same function, line by line.
\<close>

definition months_of_match :: "ustr option \<Rightarrow> int \<Rightarrow> error + int" where
  "months_of_match m factor =
     (case m of
        None \<Rightarrow> Inr 0
      | Some g \<Rightarrow> (case py_int g of Inl e \<Rightarrow> Inl e | Inr n \<Rightarrow> Inr (n * factor)))"

fun extract_months :: "cell \<Rightarrow> error + int" where
  "extract_months (Str exp_str) =
     (let years_match = re_search YEAR_WORDS exp_str;
          months_match = re_search MONTH_WORDS exp_str
      in case months_of_match years_match 12 of
           Inl e \<Rightarrow> Inl e
         | Inr y \<Rightarrow>
             (case months_of_match months_match 1 of
                Inl e \<Rightarrow> Inl e
              | Inr m \<Rightarrow> Inr (0 + y + m)))"
| "extract_months v = Inr 0"





section \<open>Extraction stages\<close>

text \<open>
  The raw column names of the input table and the car-ownership literal, as code
  points (they are Russian text): \<open>col_personal\<close> is the gender-and-age column,
  \<open>col_salary\<close> the salary, \<open>col_experience\<close> the experience text, \<open>col_city\<close> the city,
  \<open>col_employment\<close>, \<open>col_schedule\<close> and \<open>col_education\<close> the three keyword fields,
  \<open>col_resume_update\<close> the date of the last update, \<open>col_car\<close> the car field, and
  \<open>col_last_place\<close>, \<open>col_last_position\<close> the last employer and position.
\<close>

definition col_personal :: ustr where
  "col_personal =
     [1055, 1086, 1083, 44, 32, 1074, 1086, 1079, 1088, 1072, 1089, 1090]"

definition col_salary :: ustr where
  "col_salary =
     [1047, 1055]"

definition col_experience :: ustr where
  "col_experience =
     [1054, 1087, 1099, 1090, 32, 40, 1076, 1074, 1086, 1081, 1085, 1086, 1077, 32, 1085,
      1072, 1078, 1072, 1090, 1080, 1077, 32, 1076, 1083, 1103, 32, 1087, 1086, 1083, 1085,
      1086, 1081, 32, 1074, 1077, 1088, 1089, 1080, 1080, 41]"

definition col_city :: ustr where
  "col_city =
     [1043, 1086, 1088, 1086, 1076]"

definition col_employment :: ustr where
  "col_employment =
     [1047, 1072, 1085, 1103, 1090, 1086, 1089, 1090, 1100]"

definition col_schedule :: ustr where
  "col_schedule =
     [1043, 1088, 1072, 1092, 1080, 1082]"

definition col_education :: ustr where
  "col_education =
     [1054, 1073, 1088, 1072, 1079, 1086, 1074, 1072, 1085, 1080, 1077, 32, 1080, 32, 1042,
      1059, 1047]"

definition col_resume_update :: ustr where
  "col_resume_update =
     [1054, 1073, 1085, 1086, 1074, 1083, 1077, 1085, 1080, 1077, 32, 1088, 1077, 1079,
      1102, 1084, 1077]"

definition col_car :: ustr where
  "col_car =
     [1040, 1074, 1090, 1086]"

definition col_last_place :: ustr where
  "col_last_place =
     [1055, 1086, 1089, 1083, 1077, 1076, 1077, 1085, 1077, 1077, 47, 1085, 1099, 1085,
      1077, 1096, 1085, 1077, 1077, 32, 1084, 1077, 1089, 1090, 1086, 32, 1088, 1072, 1073,
      1086, 1090, 1099]"

definition col_last_position :: ustr where
  "col_last_position =
     [1055, 1086, 1089, 1083, 1077, 1076, 1077, 1085, 1103, 1103, 47, 1085, 1099, 1085,
      1077, 1096, 1085, 1103, 1103, 32, 1076, 1086, 1083, 1078, 1085, 1086, 1089, 1090,
      1100]"

definition own_car :: ustr where
  "own_car =
     [1048, 1084, 1077, 1077, 1090, 1089, 1103, 32, 1089, 1086, 1073, 1089, 1090, 1074,
      1077, 1085, 1085, 1099, 1081, 32, 1072, 1074, 1090, 1086, 1084, 1086, 1073, 1080,
      1083, 1100]"

text \<open>
  The frame every stage has: it copies the container's working table
  (\<open>AttributeError\<close> when there is none), transforms the copy, and stores it back.
\<close>

definition on_processed :: "(dataframe \<Rightarrow> error + dataframe) \<Rightarrow> container \<Rightarrow> error + container" where
  "on_processed step c =
     (case processed_data c of
        None \<Rightarrow> Inl AttributeError
      | Some df \<Rightarrow>
          (case step df of Inl e \<Rightarrow> Inl e | Inr df' \<Rightarrow> Inr (c\<lparr>processed_data := Some df'\<rparr>)))"

text \<open>One step after another, stopping at the first exception.\<close>

definition and_then :: "error + 'a \<Rightarrow> ('a \<Rightarrow> error + 'b) \<Rightarrow> error + 'b" where
  "and_then r f = (case r of Inl e \<Rightarrow> Inl e | Inr x \<Rightarrow> f x)"

text \<open>\<open>df[new] = df[src].apply(f)\<close>.\<close>

definition derive_col :: "dataframe \<Rightarrow> ustr \<Rightarrow> ustr \<Rightarrow> (cell \<Rightarrow> error + cell) \<Rightarrow> error + dataframe" where
  "derive_col df new src f =
     and_then (get_col df src) (\<lambda>c. and_then (series_apply f c) (\<lambda>c'. Inr (set_col df new c')))"

text \<open>The cell a per-cell function returns, by the type of its result.\<close>

definition int_result :: "(cell \<Rightarrow> error + int) \<Rightarrow> cell \<Rightarrow> error + cell" where
  "int_result f v = and_then (f v) (\<lambda>n. Inr (IntV n))"

definition float_result :: "(cell \<Rightarrow> error + rat) \<Rightarrow> cell \<Rightarrow> error + cell" where
  "float_result f v = and_then (f v) (\<lambda>x. Inr (FloatV x))"

definition str_result :: "(cell \<Rightarrow> error + ustr) \<Rightarrow> cell \<Rightarrow> error + cell" where
  "str_result f v = and_then (f v) (\<lambda>s. Inr (Str s))"

text \<open>\<open>PersonalInfoExtractorStage.execute\<close>.\<close>

definition personal_info_execute :: "container \<Rightarrow> error + container" where
  "personal_info_execute =
     on_processed (\<lambda>df.
       and_then (derive_col df (asc ''gender'') col_personal (int_result parse_gender)) (\<lambda>df1.
       and_then (derive_col df1 (asc ''age'') col_personal (int_result parse_age)) (\<lambda>df2.
       and_then (derive_col df2 (asc ''birth_month'') col_personal (int_result parse_birth_month))
         (\<lambda>df3. drop_cols df3 [col_personal]))))"

text \<open>\<open>SalaryExtractorStage.execute\<close>.\<close>

definition salary_execute :: "container \<Rightarrow> error + container" where
  "salary_execute =
     on_processed (\<lambda>df.
       and_then (derive_col df (asc ''salary_rub'') col_salary (float_result normalize_salary))
         (\<lambda>df1. drop_cols df1 [col_salary]))"

text \<open>\<open>ExperienceExtractorStage.execute\<close>.\<close>

definition experience_execute :: "container \<Rightarrow> error + container" where
  "experience_execute =
     on_processed (\<lambda>df.
       and_then (derive_col df col_experience_months col_experience (int_result extract_months))
         (\<lambda>df1. drop_cols df1 [col_experience]))"

text \<open>\<open>LocationExtractorStage\<close>: the region map, \<open>_categorize_city\<close> and \<open>execute\<close>.\<close>

definition REGION_MAPPING :: "(ustr \<times> ustr list) list" where
  "REGION_MAPPING =
     [(asc ''Moscow & Oblast'',
       [[1052, 1086, 1089, 1082, 1074, 1072], asc ''Moscow'',
        [1047, 1077, 1083, 1077, 1085, 1086, 1075, 1088, 1072, 1076],
        [1055, 1086, 1076, 1086, 1083, 1100, 1089, 1082],
        [1041, 1072, 1083, 1072, 1096, 1080, 1093, 1072], [1061, 1080, 1084, 1082, 1080],
        [1052, 1099, 1090, 1080, 1097, 1080], [1050, 1086, 1088, 1086, 1083, 1077, 1074],
        [1051, 1102, 1073, 1077, 1088, 1094, 1099],
        [1050, 1088, 1072, 1089, 1085, 1086, 1075, 1086, 1088, 1089, 1082],
        [1054, 1076, 1080, 1085, 1094, 1086, 1074, 1086],
        [1044, 1086, 1084, 1086, 1076, 1077, 1076, 1086, 1074, 1086],
        [1065, 1077, 1083, 1082, 1086, 1074, 1086],
        [1057, 1077, 1088, 1087, 1091, 1093, 1086, 1074],
        [1056, 1072, 1084, 1077, 1085, 1089, 1082, 1086, 1077],
        [1044, 1086, 1083, 1075, 1086, 1087, 1088, 1091, 1076, 1085, 1099, 1081],
        [1056, 1077, 1091, 1090, 1086, 1074], [1055, 1091, 1096, 1082, 1080, 1085, 1086],
        [1051, 1086, 1073, 1085, 1103]]),
      (asc ''Saint Petersburg & Oblast'',
       [[1057, 1072, 1085, 1082, 1090, 45, 1055, 1077, 1090, 1077, 1088, 1073, 1091, 1088, 1075],
        asc ''Saint Petersburg'', [1043, 1072, 1090, 1095, 1080, 1085, 1072],
        [1042, 1099, 1073, 1086, 1088, 1075],
        [1042, 1089, 1077, 1074, 1086, 1083, 1086, 1078, 1089, 1082],
        [1057, 1086, 1089, 1085, 1086, 1074, 1099, 1081, 32, 1041, 1086, 1088],
        [1050, 1080, 1088, 1080, 1096, 1080], [1058, 1080, 1093, 1074, 1080, 1085],
        [1057, 1077, 1088, 1090, 1086, 1083, 1086, 1074, 1086]]),
      (asc ''Central Federal District'',
       [[1042, 1086, 1088, 1086, 1085, 1077, 1078],
        [1071, 1088, 1086, 1089, 1083, 1072, 1074, 1083, 1100],
        [1056, 1103, 1079, 1072, 1085, 1100], [1058, 1074, 1077, 1088, 1100],
        [1058, 1091, 1083, 1072], [1051, 1080, 1087, 1077, 1094, 1082],
        [1050, 1091, 1088, 1089, 1082], [1041, 1088, 1103, 1085, 1089, 1082],
        [1048, 1074, 1072, 1085, 1086, 1074, 1086],
        [1041, 1077, 1083, 1075, 1086, 1088, 1086, 1076],
        [1042, 1083, 1072, 1076, 1080, 1084, 1080, 1088],
        [1050, 1072, 1083, 1091, 1075, 1072], [1054, 1088, 1077, 1083],
        [1057, 1084, 1086, 1083, 1077, 1085, 1089, 1082],
        [1058, 1072, 1084, 1073, 1086, 1074],
        [1050, 1086, 1089, 1090, 1088, 1086, 1084, 1072],
        [1057, 1090, 1072, 1088, 1099, 1081, 32, 1054, 1089, 1082, 1086, 1083]]),
      (asc ''Volga Federal District'',
       [[1050, 1072, 1079, 1072, 1085, 1100], asc ''Kazan'',
        [1053, 1080, 1078, 1085, 1080, 1081, 32, 1053, 1086, 1074, 1075, 1086, 1088, 1086, 1076],
        [1057, 1072, 1084, 1072, 1088, 1072], [1059, 1092, 1072],
        [1055, 1077, 1088, 1084, 1100], [1057, 1072, 1088, 1072, 1090, 1086, 1074],
        [1058, 1086, 1083, 1100, 1103, 1090, 1090, 1080],
        [1048, 1078, 1077, 1074, 1089, 1082],
        [1059, 1083, 1100, 1103, 1085, 1086, 1074, 1089, 1082],
        [1054, 1088, 1077, 1085, 1073, 1091, 1088, 1075], [1055, 1077, 1085, 1079, 1072],
        [1053, 1072, 1073, 1077, 1088, 1077, 1078, 1085, 1099, 1077, 32, 1063, 1077, 1083, 1085, 1099],
        [1063, 1077, 1073, 1086, 1082, 1089, 1072, 1088, 1099],
        [1050, 1080, 1088, 1086, 1074], [1057, 1072, 1088, 1072, 1085, 1089, 1082],
        [1057, 1090, 1077, 1088, 1083, 1080, 1090, 1072, 1084, 1072, 1082],
        [1049, 1086, 1096, 1082, 1072, 1088, 45, 1054, 1083, 1072]]),
      (asc ''South and North Caucasus Federal District'',
       [[1050, 1088, 1072, 1089, 1085, 1086, 1076, 1072, 1088],
        [1056, 1086, 1089, 1090, 1086, 1074, 45, 1085, 1072, 45, 1044, 1086, 1085, 1091],
        [1042, 1086, 1083, 1075, 1086, 1075, 1088, 1072, 1076], [1057, 1086, 1095, 1080],
        [1057, 1090, 1072, 1074, 1088, 1086, 1087, 1086, 1083, 1100],
        [1040, 1089, 1090, 1088, 1072, 1093, 1072, 1085, 1100],
        [1057, 1077, 1074, 1072, 1089, 1090, 1086, 1087, 1086, 1083, 1100],
        [1057, 1080, 1084, 1092, 1077, 1088, 1086, 1087, 1086, 1083, 1100],
        [1053, 1086, 1074, 1086, 1088, 1086, 1089, 1089, 1080, 1081, 1089, 1082],
        [1058, 1072, 1075, 1072, 1085, 1088, 1086, 1075],
        [1052, 1072, 1093, 1072, 1095, 1082, 1072, 1083, 1072],
        [1042, 1083, 1072, 1076, 1080, 1082, 1072, 1074, 1082, 1072, 1079],
        [1043, 1088, 1086, 1079, 1085, 1099, 1081], [1052, 1072, 1081, 1082, 1086, 1087],
        [1055, 1103, 1090, 1080, 1075, 1086, 1088, 1089, 1082]]),
      (asc ''Ural Federal District'',
       [[1045, 1082, 1072, 1090, 1077, 1088, 1080, 1085, 1073, 1091, 1088, 1075],
        asc ''Yekaterinburg'', [1063, 1077, 1083, 1103, 1073, 1080, 1085, 1089, 1082],
        [1058, 1102, 1084, 1077, 1085, 1100],
        [1052, 1072, 1075, 1085, 1080, 1090, 1086, 1075, 1086, 1088, 1089, 1082],
        [1057, 1091, 1088, 1075, 1091, 1090],
        [1053, 1080, 1078, 1085, 1077, 1074, 1072, 1088, 1090, 1086, 1074, 1089, 1082],
        [1050, 1091, 1088, 1075, 1072, 1085],
        [1053, 1086, 1074, 1099, 1081, 32, 1059, 1088, 1077, 1085, 1075, 1086, 1081],
        [1053, 1086, 1103, 1073, 1088, 1100, 1089, 1082],
        [1061, 1072, 1085, 1090, 1099, 45, 1052, 1072, 1085, 1089, 1080, 1081, 1089, 1082]]),
      (asc ''Siberian Federal District'',
       [[1053, 1086, 1074, 1086, 1089, 1080, 1073, 1080, 1088, 1089, 1082],
        asc ''Novosibirsk'', [1050, 1088, 1072, 1089, 1085, 1086, 1103, 1088, 1089, 1082],
        [1054, 1084, 1089, 1082], [1058, 1086, 1084, 1089, 1082],
        [1041, 1072, 1088, 1085, 1072, 1091, 1083],
        [1048, 1088, 1082, 1091, 1090, 1089, 1082],
        [1050, 1077, 1084, 1077, 1088, 1086, 1074, 1086],
        [1053, 1086, 1074, 1086, 1082, 1091, 1079, 1085, 1077, 1094, 1082],
        [1040, 1073, 1072, 1082, 1072, 1085], [1041, 1088, 1072, 1090, 1089, 1082],
        [1040, 1085, 1075, 1072, 1088, 1089, 1082]]),
      (asc ''Far Eastern Federal District'',
       [[1042, 1083, 1072, 1076, 1080, 1074, 1086, 1089, 1090, 1086, 1082],
        [1061, 1072, 1073, 1072, 1088, 1086, 1074, 1089, 1082],
        [1059, 1083, 1072, 1085, 45, 1059, 1076, 1101], [1063, 1080, 1090, 1072],
        [1041, 1083, 1072, 1075, 1086, 1074, 1077, 1097, 1077, 1085, 1089, 1082],
        [1071, 1082, 1091, 1090, 1089, 1082],
        [1055, 1077, 1090, 1088, 1086, 1087, 1072, 1074, 1083, 1086, 1074, 1089, 1082, 45, 1050, 1072, 1084, 1095, 1072, 1090, 1089, 1082, 1080, 1081],
        [1070, 1078, 1085, 1086, 45, 1057, 1072, 1093, 1072, 1083, 1080, 1085, 1089, 1082],
        [1053, 1072, 1093, 1086, 1076, 1082, 1072]]),
      (asc ''Kazakhstan'',
       [[1040, 1083, 1084, 1072, 1090, 1099], asc ''Almaty'',
        [1053, 1091, 1088, 45, 1057, 1091, 1083, 1090, 1072, 1085],
        [1040, 1089, 1090, 1072, 1085, 1072], asc ''Astana'',
        [1064, 1099, 1084, 1082, 1077, 1085, 1090], [1040, 1082, 1090, 1086, 1073, 1077],
        [1050, 1072, 1088, 1072, 1075, 1072, 1085, 1076, 1072],
        [1040, 1090, 1099, 1088, 1072, 1091], [1040, 1082, 1090, 1072, 1091],
        [1055, 1072, 1074, 1083, 1086, 1076, 1072, 1088],
        [1059, 1088, 1072, 1083, 1100, 1089, 1082]]),
      (asc ''Belarus'',
       [[1052, 1080, 1085, 1089, 1082], asc ''Minsk'', [1043, 1086, 1084, 1077, 1083, 1100],
        [1042, 1080, 1090, 1077, 1073, 1089, 1082],
        [1052, 1086, 1075, 1080, 1083, 1077, 1074], [1043, 1088, 1086, 1076, 1085, 1086],
        [1041, 1088, 1077, 1089, 1090]]),
      (asc ''Other countries / CIS'',
       [[1050, 1080, 1077, 1074], asc ''Kyiv'', [1058, 1072, 1096, 1082, 1077, 1085, 1090],
        [1041, 1080, 1096, 1082, 1077, 1082], [1058, 1073, 1080, 1083, 1080, 1089, 1080],
        [1041, 1072, 1082, 1091], [1045, 1088, 1077, 1074, 1072, 1085],
        [1056, 1080, 1075, 1072], [1042, 1080, 1083, 1100, 1085, 1102, 1089]])]"

fun categorize_city :: "cell \<Rightarrow> error + ustr" where
  "categorize_city (Str city_str) =
     and_then (py_index (py_split 44 city_str) 0) (\<lambda>part.
       (let city_name = py_strip part in
        case find (\<lambda>p. city_name \<in> set (snd p)) REGION_MAPPING of
          Some p \<Rightarrow> Inr (fst p)
        | None \<Rightarrow> Inr (asc ''Other'')))"
| "categorize_city v = Inr (asc ''Other'')"

definition location_execute :: "container \<Rightarrow> error + container" where
  "location_execute =
     on_processed (\<lambda>df.
       and_then (derive_col df (asc ''region'') col_city (str_result categorize_city))
         (\<lambda>df1. drop_cols df1 [col_city]))"

text \<open>
  The three keyword stages. For each category, in the order of the dictionary, a flag
  column \<open>pre + category\<close> is computed from the source column:
  \<open>1 if any(kw in str(x).lower() for kw in keywords) else 0\<close>.
\<close>

definition EMPLOYMENT_TYPES :: "(ustr \<times> ustr list) list" where
  "EMPLOYMENT_TYPES =
     [(asc ''full_time'',
       [[1087, 1086, 1083, 1085, 1072, 1103, 32, 1079, 1072, 1085, 1103, 1090, 1086, 1089, 1090, 1100],
        asc ''full time'']),
      (asc ''part_time'',
       [[1095, 1072, 1089, 1090, 1080, 1095, 1085, 1072, 1103, 32, 1079, 1072, 1085, 1103, 1090, 1086, 1089, 1090, 1100],
        asc ''part time'']),
      (asc ''project'',
       [[1087, 1088, 1086, 1077, 1082, 1090, 1085, 1072, 1103, 32, 1088, 1072, 1073, 1086, 1090, 1072],
        asc ''project work'']),
      (asc ''internship'',
       [[1089, 1090, 1072, 1078, 1080, 1088, 1086, 1074, 1082, 1072], asc ''work placement'']),
      (asc ''volunteering'',
       [[1074, 1086, 1083, 1086, 1085, 1090, 1077, 1088, 1089, 1090, 1074, 1086],
        asc ''volunteering''])]"

definition SCHEDULE_TYPES :: "(ustr \<times> ustr list) list" where
  "SCHEDULE_TYPES =
     [(asc ''full_day'',
       [[1087, 1086, 1083, 1085, 1099, 1081, 32, 1076, 1077, 1085, 1100], asc ''full day'']),
      (asc ''flexible'',
       [[1075, 1080, 1073, 1082, 1080, 1081, 32, 1075, 1088, 1072, 1092, 1080, 1082],
        asc ''flexible schedule'']),
      (asc ''shift'',
       [[1089, 1084, 1077, 1085, 1085, 1099, 1081, 32, 1075, 1088, 1072, 1092, 1080, 1082],
        asc ''shift schedule'']),
      (asc ''remote'',
       [[1091, 1076, 1072, 1083, 1077, 1085, 1085, 1072, 1103, 32, 1088, 1072, 1073, 1086, 1090, 1072],
        asc ''remote working'']),
      (asc ''rotation'',
       [[1074, 1072, 1093, 1090, 1086, 1074, 1099, 1081, 32, 1084, 1077, 1090, 1086, 1076],
        asc ''rotation based work''])]"

definition EDUCATION_LEVELS :: "(ustr \<times> ustr list) list" where
  "EDUCATION_LEVELS =
     [(asc ''incomplete_higher'',
       [[1085, 1077, 1086, 1082, 1086, 1085, 1095, 1077, 1085, 1085, 1086, 1077, 32, 1074, 1099, 1089, 1096, 1077, 1077],
        asc ''incomplete higher'']),
      (asc ''higher'',
       [[1074, 1099, 1089, 1096, 1077, 1077, 32, 1086, 1073, 1088, 1072, 1079, 1086, 1074, 1072, 1085, 1080, 1077],
        asc ''higher education'']),
      (asc ''secondary_special'',
       [[1089, 1088, 1077, 1076, 1085, 1077, 1077, 32, 1089, 1087, 1077, 1094, 1080, 1072, 1083, 1100, 1085, 1086, 1077],
        asc ''secondary special'']),
      (asc ''secondary'',
       [[1089, 1088, 1077, 1076, 1085, 1077, 1077, 32, 1086, 1073, 1088, 1072, 1079, 1086, 1074, 1072, 1085, 1080, 1077],
        asc ''secondary education''])]"

definition keyword_flag :: "ustr list \<Rightarrow> cell \<Rightarrow> error + cell" where
  "keyword_flag keywords x = Inr (IntV (if any_in keywords (py_lower (py_str x)) then 1 else 0))"

fun add_flags :: "ustr \<Rightarrow> ustr \<Rightarrow> (ustr \<times> ustr list) list \<Rightarrow> dataframe \<Rightarrow> error + dataframe" where
  "add_flags pre src [] df = Inr df"
| "add_flags pre src (category # rest) df =
     and_then (derive_col df (pre @ fst category) src (keyword_flag (snd category)))
       (add_flags pre src rest)"

definition employment_execute :: "container \<Rightarrow> error + container" where
  "employment_execute =
     on_processed (\<lambda>df.
       and_then (add_flags (asc ''employment_'') col_employment EMPLOYMENT_TYPES df)
         (\<lambda>df1. drop_cols df1 [col_employment]))"

definition schedule_execute :: "container \<Rightarrow> error + container" where
  "schedule_execute =
     on_processed (\<lambda>df.
       and_then (add_flags (asc ''schedule_'') col_schedule SCHEDULE_TYPES df)
         (\<lambda>df1. drop_cols df1 [col_schedule]))"

definition education_execute :: "container \<Rightarrow> error + container" where
  "education_execute =
     on_processed (\<lambda>df.
       and_then (add_flags (asc ''education_'') col_education EDUCATION_LEVELS df)
         (\<lambda>df1. drop_cols df1 [col_education]))"

text \<open>
  \<open>MiscExtractorStage.execute\<close>: each of its four steps runs only when its column is
  there.
\<close>

definition has_car :: "cell \<Rightarrow> error + cell" where
  "has_car x = Inr (IntV (if x = Str own_car then 1 else 0))"

definition misc_resume_step :: "dataframe \<Rightarrow> error + dataframe" where
  "misc_resume_step df =
     (if has_col df col_resume_update then
        and_then (derive_col df (asc ''resume_old'') col_resume_update (int_result is_old_resume))
          (\<lambda>df1. drop_cols df1 [col_resume_update])
      else Inr df)"

definition misc_car_step :: "dataframe \<Rightarrow> error + dataframe" where
  "misc_car_step df =
     (if has_col df col_car then
        and_then (derive_col df (asc ''has_car'') col_car has_car) (\<lambda>df1. drop_cols df1 [col_car])
      else Inr df)"

definition drop_if_present :: "ustr \<Rightarrow> dataframe \<Rightarrow> error + dataframe" where
  "drop_if_present name df = (if has_col df name then drop_cols df [name] else Inr df)"

definition misc_execute :: "container \<Rightarrow> error + container" where
  "misc_execute =
     on_processed (\<lambda>df.
       and_then (misc_resume_step df) (\<lambda>df1.
       and_then (misc_car_step df1) (\<lambda>df2.
       and_then (drop_if_present col_last_place df2) (drop_if_present col_last_position))))"

text \<open>The eight extraction stages, and the columns each of them writes.\<close>

datatype extractor =
  PersonalInfo | Salary | Experience | Location | Employment | Schedule | Education | Misc

fun extractor_execute :: "extractor \<Rightarrow> container \<Rightarrow> error + container" where
  "extractor_execute PersonalInfo = personal_info_execute"
| "extractor_execute Salary = salary_execute"
| "extractor_execute Experience = experience_execute"
| "extractor_execute Location = location_execute"
| "extractor_execute Employment = employment_execute"
| "extractor_execute Schedule = schedule_execute"
| "extractor_execute Education = education_execute"
| "extractor_execute Misc = misc_execute"

fun derived_columns :: "extractor \<Rightarrow> ustr list" where
  "derived_columns PersonalInfo = [asc ''gender'', asc ''age'', asc ''birth_month'']"
| "derived_columns Salary = [asc ''salary_rub'']"
| "derived_columns Experience = [col_experience_months]"
| "derived_columns Location = [asc ''region'']"
| "derived_columns Employment = map (\<lambda>p. asc ''employment_'' @ fst p) EMPLOYMENT_TYPES"
| "derived_columns Schedule = map (\<lambda>p. asc ''schedule_'' @ fst p) SCHEDULE_TYPES"
| "derived_columns Education = map (\<lambda>p. asc ''education_'' @ fst p) EDUCATION_LEVELS"
| "derived_columns Misc = [asc ''resume_old'', asc ''has_car'']"

text \<open>
  Row identity between a table and the table a stage makes of it: the row labels are
  the same, in the same order; every column that is still there, other than the
  columns \<open>new\<close> that the stage writes, has the cells it had; and if every column had
  one cell per row, every column still has.
\<close>

definition full_columns :: "dataframe \<Rightarrow> bool" where
  "full_columns df = list_all (\<lambda>p. length (vals (snd p)) = nrows df) (cols df)"

definition keeps_rows :: "ustr list \<Rightarrow> dataframe \<Rightarrow> dataframe \<Rightarrow> bool" where
  "keeps_rows new df df' =
     (index df' = index df
      \<and> (\<forall>k. has_col df' k \<and> k \<notin> set new \<longrightarrow> get_col df' k = get_col df k)
      \<and> (full_columns df \<longrightarrow> full_columns df'))"

text \<open>A table with a raw experience column and one more column, for the examples.\<close>

definition experience_table :: dataframe where
  "experience_table =
     \<lparr>index = [IntV 7, IntV 3],
      cols = [(col_experience, Column ObjectT [Str (asc ''5 '' @ [1083, 1077, 1090]), NaN]),
              (asc ''age'', Column Int64T [IntV 30, IntV 41])]\<rparr>"

section \<open>Categorical encoding\<close>

text \<open>
  \<open>pd.get_dummies(df, columns=names, drop_first=True, prefix_sep='_')\<close>, from the
  library's documented behaviour. The levels of a column are its observed (non-missing)
  values, each once, numbers before strings and each group in ascending order; the
  first level is the reference and gets no column; every other level \<open>l\<close> gets the
  boolean column \<open>name_l\<close> that is true in the rows whose cell equals \<open>l\<close>.
\<close>

text \<open>Python equality of observed cells, by a key: \<open>1 == 1.0 == True\<close>.\<close>

fun cell_key :: "cell \<Rightarrow> rat + ustr" where
  "cell_key (Str s) = Inr s"
| "cell_key (IntV i) = Inl (of_int i)"
| "cell_key (FloatV r) = Inl r"
| "cell_key (BoolV b) = Inl (if b then 1 else 0)"
| "cell_key NaN = Inr []"

fun is_str_cell :: "cell \<Rightarrow> bool" where
  "is_str_cell (Str s) = True"
| "is_str_cell c = False"

fun num_value :: "cell \<Rightarrow> rat" where
  "num_value (IntV i) = of_int i"
| "num_value (FloatV r) = r"
| "num_value (BoolV b) = (if b then 1 else 0)"
| "num_value c = 0"

fun str_value :: "cell \<Rightarrow> ustr" where
  "str_value (Str s) = s"
| "str_value c = []"

definition observed :: "cell list \<Rightarrow> cell list" where
  "observed vs = filter (\<lambda>v. v \<noteq> NaN) vs"

text \<open>The first occurrence of every value; \<open>seen\<close> holds the keys met so far.\<close>

fun first_seen :: "(rat + ustr) list \<Rightarrow> cell list \<Rightarrow> cell list" where
  "first_seen seen [] = []"
| "first_seen seen (v # vs) =
     (if cell_key v \<in> set seen then first_seen seen vs
      else v # first_seen (cell_key v # seen) vs)"

definition levels :: "cell list \<Rightarrow> cell list" where
  "levels vs =
     (let u = first_seen [] (observed vs)
      in sort_key num_value (filter (\<lambda>v. \<not> is_str_cell v) u)
         @ sort_key str_value (filter is_str_cell u))"

definition dummies_1d :: "ustr \<Rightarrow> column \<Rightarrow> (ustr \<times> column) list" where
  "dummies_1d name c =
     map (\<lambda>l. (name @ [95] @ py_str l,
                Column BoolT (map (\<lambda>v. BoolV (v \<noteq> NaN \<and> cell_key v = cell_key l)) (vals c))))
       (tl (levels (vals c)))"

definition get_dummies :: "dataframe \<Rightarrow> ustr list \<Rightarrow> error + dataframe" where
  "get_dummies df names =
     and_then (collect (map (\<lambda>n. and_then (get_col df n) (\<lambda>c. Inr (dummies_1d n c))) names))
       (\<lambda>ds. Inr (df\<lparr>cols := filter (\<lambda>p. fst p \<notin> set names) (cols df) @ concat ds\<rparr>))"

text \<open>
  \<open>df.select_dtypes(include=['object']).columns.tolist()\<close> and its complement with
  \<open>exclude\<close>.
\<close>

definition object_columns :: "dataframe \<Rightarrow> ustr list" where
  "object_columns df = map fst (filter (\<lambda>p. dtype (snd p) = ObjectT) (cols df))"

definition other_columns :: "dataframe \<Rightarrow> ustr list" where
  "other_columns df = map fst (filter (\<lambda>p. dtype (snd p) \<noteq> ObjectT) (cols df))"

text \<open>The columns the stage encodes: the object columns without the target.\<close>

definition categorical_cols :: "dataframe \<Rightarrow> ustr list" where
  "categorical_cols df = remove1 col_developer_level (object_columns df)"

text \<open>
  The loop that puts back a non-categorical column the encoded table should lack, and
  \<open>CategoricalEncoderStage.execute\<close>.
\<close>

fun restore_cols :: "dataframe \<Rightarrow> ustr list \<Rightarrow> dataframe \<Rightarrow> error + dataframe" where
  "restore_cols df [] df_encoded = Inr df_encoded"
| "restore_cols df (col # rest) df_encoded =
     (if has_col df_encoded col then restore_cols df rest df_encoded
      else and_then (get_col df col) (\<lambda>c. restore_cols df rest (set_col df_encoded col c)))"

definition encoder_step :: "dataframe \<Rightarrow> error + dataframe" where
  "encoder_step df =
     (if categorical_cols df \<noteq> [] then
        and_then (get_dummies df (categorical_cols df)) (\<lambda>df_encoded.
        and_then (restore_cols df (remove1 col_developer_level (other_columns df)) df_encoded)
          (\<lambda>df1.
             if has_col df col_developer_level then
               and_then (get_col df col_developer_level)
                 (\<lambda>t. Inr (set_col df1 col_developer_level t))
             else Inr df1))
      else Inr df)"

definition encoder_execute :: "container \<Rightarrow> error + container" where
  "encoder_execute = on_processed encoder_step"

text \<open>The number of distinct observed values of a column.\<close>

definition observed_count :: "column \<Rightarrow> nat" where
  "observed_count c = card (cell_key ` set (observed (vals c)))"

text \<open>
  Example tables: a region column with three values beside a number and the target,
  and a text column that holds no value at all beside a number.
\<close>

definition region_table :: dataframe where
  "region_table =
     \<lparr>index = [IntV 0, IntV 1, IntV 2, IntV 3],
      cols = [(asc ''age'', Column Int64T [IntV 30, IntV 41, IntV 25, IntV 52]),
              (asc ''region'', Column ObjectT
                 [Str (asc ''Other''), Str (asc ''Belarus''), Str (asc ''Other''),
                  Str (asc ''Kazakhstan'')]),
              (col_developer_level, Column ObjectT
                 [Str (asc ''Junior''), Str (asc ''Senior''), Str (asc ''Middle''),
                  Str (asc ''Senior'')])]\<rparr>"

definition notes_table :: dataframe where
  "notes_table =
     \<lparr>index = [IntV 0, IntV 1],
      cols = [(asc ''notes'', Column ObjectT [NaN, NaN]),
              (asc ''age'', Column Int64T [IntV 30, IntV 41])]\<rparr>"

section \<open>The split stage\<close>

text \<open>\<open>df.values\<close>: the cells row by row.\<close>

definition df_values :: "dataframe \<Rightarrow> cell list list" where
  "df_values df = map (\<lambda>i. map (\<lambda>p. vals (snd p) ! i) (cols df)) [0..<nrows df]"

text \<open>The message \<open>Target variable 'developer_level' not found!\<close>.\<close>

definition target_not_found :: ustr where
  "target_not_found =
     asc ''Target variable '' @ [39] @ asc ''developer_level'' @ [39] @ asc '' not found!''"

text \<open>
  \<open>FeatureTargetSplitterStage.execute\<close>. The result is paired with the messages the
  stage logs at error level.
\<close>

definition splitter_execute :: "container \<Rightarrow> ustr list \<times> (error + container)" where
  "splitter_execute c =
     (case processed_data c of
        None \<Rightarrow> ([], Inl AttributeError)
      | Some df \<Rightarrow>
          if \<not> has_col df col_developer_level then ([target_not_found], Inr c)
          else
            ([], and_then (get_col df col_developer_level) (\<lambda>t.
                 and_then (drop_cols df [col_developer_level]) (\<lambda>feature_df.
                   Inr (c\<lparr>target_vector := Some (vals t),
                           feature_matrix := Some (df_values feature_df),
                           feature_labels := columns feature_df,
                           processed_data := None\<rparr>)))))"

section \<open>The labeling handler of the chained variant\<close>

text \<open>
  Modelled from the spec: the shared state container of the chained variant. The
  handlers import \<open>PipelineContext\<close> from \<open>src.core\<close>, which does not define it; the
  record has the two fields the labeling handler uses, the table and the target.
\<close>

record pipeline_context =
  ctx_df :: "dataframe option"
  ctx_target :: "cell list option"

definition col_grade :: ustr where
  "col_grade = asc ''grade''"

definition col_job :: ustr where
  "col_job = asc ''job''"

text \<open>
  \<open>LabelGradeHandler._process\<close>. The pandas accessor call \<open>.str.lower()\<close>, which
  lowercases a column or raises, is the parameter \<open>str_lower\<close>.
\<close>

definition handler_titles :: "(column \<Rightarrow> error + column) \<Rightarrow> dataframe \<Rightarrow> error + column" where
  "handler_titles str_lower df =
     (if has_col df job_title_col then
        and_then (get_col df job_title_col) (\<lambda>c. str_lower (series_map fillna_empty c))
      else if has_col df col_job then
        and_then (get_col df col_job) (\<lambda>c. str_lower (series_map fillna_empty c))
      else Inr (Column ObjectT (replicate (nrows df) (Str []))))"

definition handler_cols_to_drop :: "dataframe \<Rightarrow> ustr list" where
  "handler_cols_to_drop df =
     [col_title]
     @ (if has_col df job_title_col then [job_title_col] else [])
     @ (if has_col df col_experience_months then [col_experience_months] else [])
     @ (if has_col df col_last_position then [col_last_position] else [])"

definition label_grade_process ::
  "(column \<Rightarrow> error + column) \<Rightarrow> pipeline_context \<Rightarrow> error + pipeline_context" where
  "label_grade_process str_lower ctx =
     (case ctx_df ctx of
        None \<Rightarrow> Inl AttributeError
      | Some df \<Rightarrow>
          and_then (handler_titles str_lower df) (\<lambda>titles.
            (let df1 = set_col df col_title titles in
             and_then (apply_rows handler_label df1) (\<lambda>grades.
               (let df2 = set_col df1 col_grade (Column ObjectT (map Str grades)) in
                and_then (drop_cols df2 (handler_cols_to_drop df2)) (\<lambda>df3.
                and_then (get_col df3 col_grade) (\<lambda>g.
                  Inr (ctx\<lparr>ctx_df := Some df3, ctx_target := Some (vals g)\<rparr>))))))))"

text \<open>The accessor on a column of strings: each string lowercased, other cells missing.\<close>

fun lower_cell :: "cell \<Rightarrow> cell" where
  "lower_cell (Str s) = Str (py_lower s)"
| "lower_cell c = NaN"

definition str_lower_strings :: "column \<Rightarrow> error + column" where
  "str_lower_strings c = Inr (Column ObjectT (map lower_cell (vals c)))"

section \<open>Properties of the embedded code\<close>


subsection \<open>Evaluating the string functions on literals\<close>

lemmas eval_str = any_in_def py_in_def JUNIOR_INDICATORS_def SENIOR_INDICATORS_def
  MIDDLE_INDICATORS_def asc_def py_lower_def lower_cp_def sublist_code(3)

subsection \<open>Collecting results\<close>

lemma and_then_Inr:
  "and_then r f = Inr y \<longleftrightarrow> (\<exists>x. r = Inr x \<and> f x = Inr y)"
  by (cases r) (simp_all add: and_then_def)

lemma collect_map_Inr:
  "(\<And>x. x \<in> set xs \<Longrightarrow> f x = Inr (g x)) \<Longrightarrow> collect (map f xs) = Inr (map g xs)"
  by (induction xs) auto

lemma collect_length: "collect xs = Inr vs \<Longrightarrow> length vs = length xs"
  by (induction xs arbitrary: vs) (auto split: sum.splits)

lemma collect_nth: "collect xs = Inr vs \<Longrightarrow> i < length xs \<Longrightarrow> xs ! i = Inr (vs ! i)"
proof (induction xs arbitrary: vs i)
  case Nil
  then show ?case by simp
next
  case (Cons x xs)
  then show ?case by (cases i) (auto split: sum.splits)
qed

subsection \<open>Columns and rows of a table\<close>

lemma map_of_row_at:
  "map_of (row_at df i) k = map_option (\<lambda>c. vals c ! i) (map_of (cols df) k)"
proof -
  have "map_of (map (\<lambda>p. (fst p, vals (snd p) ! i)) xs) k = map_option (\<lambda>c. vals c ! i) (map_of xs k)" for xs
    by (induction xs) auto
  then show ?thesis by (simp add: row_at_def)
qed

lemma row_get_row_at:
  "row_get (row_at df i) k d = (case map_of (cols df) k of None \<Rightarrow> d | Some c \<Rightarrow> vals c ! i)"
  by (simp add: row_get_def map_of_row_at split: option.splits)

lemma cols_set_col: "map_of (cols (set_col df k c)) = (map_of (cols df))(k \<mapsto> c)"
  by (simp add: set_col_def update_conv')

lemma columns_set_col:
  "columns (set_col df k c) = (if k \<in> set (columns df) then columns df else columns df @ [k])"
  by (simp add: set_col_def columns_def update_keys)

lemma nrows_set_col [simp]: "nrows (set_col df k c) = nrows df"
  by (simp add: set_col_def nrows_def)

lemma index_set_col [simp]: "index (set_col df k c) = index df"
  by (simp add: set_col_def)

lemma has_col_set_col: "has_col (set_col df k c) n = (n = k \<or> has_col df n)"
  by (auto simp: has_col_def columns_set_col)

lemma get_col_set_col:
  "get_col (set_col df k c) n = (if n = k then Inr c else get_col df n)"
  by (simp add: get_col_def cols_set_col)

lemma drop_cols_Inr:
  "drop_cols df ns = Inr df' \<Longrightarrow>
     index df' = index df \<and> cols df' = filter (\<lambda>p. fst p \<notin> set ns) (cols df)"
  by (auto simp: drop_cols_def split: if_splits)

lemma map_of_filter_notin:
  "k \<notin> set ns \<Longrightarrow> map_of (filter (\<lambda>p. fst p \<notin> set ns) xs) k = map_of xs k"
  by (induction xs) auto

lemma get_col_drop_cols:
  "drop_cols df ns = Inr df' \<Longrightarrow> k \<notin> set ns \<Longrightarrow> get_col df' k = get_col df k"
  by (auto simp: get_col_def map_of_filter_notin dest!: drop_cols_Inr)

lemma has_col_drop_cols:
  "drop_cols df ns = Inr df' \<Longrightarrow> has_col df' k = (has_col df k \<and> k \<notin> set ns)"
  by (auto simp: has_col_def columns_def dest!: drop_cols_Inr)

lemma has_col_get_col: "has_col df k \<longleftrightarrow> (\<exists>c. get_col df k = Inr c)"
  by (auto simp: has_col_def columns_def get_col_def map_of_eq_None_iff split: option.splits
      dest: map_of_SomeD intro: rev_image_eqI)

lemma wf_col_length:
  "wf_df df \<Longrightarrow> get_col df k = Inr c \<Longrightarrow> length (vals c) = nrows df"
  by (auto simp: wf_df_def get_col_def list_all_iff split: option.splits dest!: map_of_SomeD)

lemma is_int_cell_iff: "is_int_cell x \<longleftrightarrow> (\<exists>e. x = IntV e)"
  by (cases x) auto

subsection \<open>The labeling stage\<close>

lemma labeler_names_distinct:
  "col_job_title \<noteq> job_title_col" "col_job_title \<noteq> col_experience_months"
  "col_job_title \<noteq> col_developer_level" "job_title_col \<noteq> col_experience_months"
  "job_title_col \<noteq> col_developer_level" "col_experience_months \<noteq> col_developer_level"
  by (simp_all add: col_job_title_def job_title_col_def col_experience_months_def
      col_developer_level_def asc_def)

lemma determine_level_rules:
  assumes "row_get r col_experience_months (IntV 0) = IntV e"
  shows "determine_level r =
     Inr (labeling_rules (py_lower (py_str (row_get r col_job_title (Str [])))) e)"
  using assms by (simp add: determine_level_def labeling_rules_def Let_def)

lemma handler_label_rules:
  "map_of r col_title = Some (Str t) \<Longrightarrow> row_get r col_experience_months (IntV 0) = IntV e \<Longrightarrow>
     handler_label r = Inr (labeling_rules t e)"
  by (simp add: handler_label_def labeling_rules_def Let_def)

lemma title_only_rules_eq: "title_only_rules t = labeling_rules t 0"
  by (simp add: title_only_rules_def labeling_rules_def)

lemma labeling_rules_closed:
  "labeling_rules t e \<in> {asc ''Junior'', asc ''Middle'', asc ''Senior''}"
  by (simp add: labeling_rules_def)

lemma labeler_execute_unfold:
  assumes "processed_data c = Some df" and "labeler_titles df = Inr titles"
    and "apply_rows determine_level (set_col df col_job_title titles) = Inr labels"
  shows "\<exists>df'. labeler_execute c = Inr (c\<lparr>target_vector := Some (map Str labels), processed_data := Some df'\<rparr>)
            \<and> index df' = index df
            \<and> get_col df' col_developer_level = Inr (Column ObjectT (map Str labels))
            \<and> (\<forall>k. has_col df' k \<longleftrightarrow>
                  k = col_developer_level \<or>
                  (has_col df k \<and> k \<noteq> col_job_title \<and> k \<noteq> job_title_col \<and> k \<noteq> col_experience_months))"
proof -
  define df1 where "df1 = set_col df col_job_title titles"
  define df2 where "df2 = set_col df1 col_developer_level (Column ObjectT (map Str labels))"
  define rm where "rm = labeler_columns_to_remove df2"
  have rm_set: "set rm = {col_job_title} \<union> (if has_col df job_title_col then {job_title_col} else {})
       \<union> (if has_col df col_experience_months then {col_experience_months} else {})"
    using labeler_names_distinct
    by (auto simp: rm_def labeler_columns_to_remove_def df2_def df1_def has_col_set_col)
  have all: "list_all (has_col df2) rm"
    by (auto simp: rm_def labeler_columns_to_remove_def df2_def df1_def has_col_set_col)
  define df3 where "df3 = df2\<lparr>cols := filter (\<lambda>p. fst p \<notin> set rm) (cols df2)\<rparr>"
  have d: "drop_cols df2 rm = Inr df3"
    using all by (simp add: drop_cols_def df3_def)
  have notin: "col_developer_level \<notin> set rm"
    using labeler_names_distinct by (auto simp: rm_set)
  have g: "get_col df3 col_developer_level = Inr (Column ObjectT (map Str labels))"
    using get_col_drop_cols[OF d notin] by (simp add: df2_def get_col_set_col)
  have ex: "labeler_execute c = Inr (c\<lparr>target_vector := Some (map Str labels), processed_data := Some df3\<rparr>)"
    using assms d g
    by (simp add: labeler_execute_def Let_def df1_def[symmetric] df2_def[symmetric] rm_def[symmetric])
  have idx: "index df3 = index df"
    by (simp add: df3_def df2_def df1_def)
  have hc: "has_col df3 k \<longleftrightarrow>
                  k = col_developer_level \<or>
                  (has_col df k \<and> k \<noteq> col_job_title \<and> k \<noteq> job_title_col \<and> k \<noteq> col_experience_months)" for k
    using labeler_names_distinct
    by (auto simp: has_col_drop_cols[OF d] rm_set df2_def df1_def has_col_set_col split: if_splits)
  show ?thesis using ex idx g hc by blast
qed

lemma labeler_execute_Inr:
  assumes "labeler_execute c = Inr c'"
  shows "\<exists>df titles labels. processed_data c = Some df \<and> labeler_titles df = Inr titles
      \<and> apply_rows determine_level (set_col df col_job_title titles) = Inr labels"
  using assms
  by (auto simp: labeler_execute_def Let_def split: option.splits sum.splits)

lemma labeler_labels:
  assumes pd: "processed_data c = Some df" and wf: "wf_df df"
    and tc: "get_col df job_title_col = Inr tc"
    and ec: "get_col df col_experience_months = Inr ec"
    and ints: "list_all is_int_cell (vals ec)"
  shows "\<exists>c' df' lc. labeler_execute c = Inr c' \<and> processed_data c' = Some df'
      \<and> get_col df' col_developer_level = Inr lc \<and> length (vals lc) = nrows df
      \<and> (\<forall>i e. i < nrows df \<and> vals ec ! i = IntV e \<longrightarrow>
             vals lc ! i = Str (labeling_rules (py_lower (py_str (fillna_empty (vals tc ! i)))) e))"
proof -
  define titles where "titles = Column ObjectT (map (astype_str \<circ> fillna_empty) (vals tc))"
  define df1 where "df1 = set_col df col_job_title titles"
  define months where "months = (\<lambda>x. case x of IntV e \<Rightarrow> e | _ \<Rightarrow> 0)"
  define g where "g = (\<lambda>i. labeling_rules (py_lower (py_str (fillna_empty (vals tc ! i)))) (months (vals ec ! i)))"
  have lt: "labeler_titles df = Inr titles"
    using tc by (simp add: labeler_titles_def titles_def has_col_get_col)
  have len_t: "length (vals tc) = nrows df" and len_e: "length (vals ec) = nrows df"
    using wf tc ec by (auto dest: wf_col_length)
  have row: "determine_level (row_at df1 i) = Inr (g i)" if "i < nrows df" for i
  proof -
    have "is_int_cell (vals ec ! i)"
      using ints that len_e by (simp add: list_all_length)
    then obtain e where e: "vals ec ! i = IntV e"
      by (auto simp: is_int_cell_iff)
    have m_e: "map_of (cols df1) col_experience_months = Some ec"
      using ec labeler_names_distinct
      by (auto simp: df1_def cols_set_col get_col_def split: option.splits)
    have m_t: "map_of (cols df1) col_job_title = Some titles"
      by (simp add: df1_def cols_set_col)
    have r_e: "row_get (row_at df1 i) col_experience_months (IntV 0) = IntV e"
      by (simp add: row_get_row_at m_e e)
    have r_t: "row_get (row_at df1 i) col_job_title (Str []) = Str (py_str (fillna_empty (vals tc ! i)))"
      using that len_t by (simp add: row_get_row_at m_t titles_def astype_str_def)
    show ?thesis
      using determine_level_rules[OF r_e] by (simp add: r_t g_def e months_def)
  qed
  have n1: "nrows df1 = nrows df"
    by (simp add: df1_def)
  have "collect (map (\<lambda>i. determine_level (row_at df1 i)) [0..<nrows df]) = Inr (map g [0..<nrows df])"
    by (rule collect_map_Inr) (simp add: row)
  then have ar: "apply_rows determine_level df1 = Inr (map g [0..<nrows df])"
    by (simp add: apply_rows_def rows_def n1 comp_def)
  from labeler_execute_unfold[OF pd lt ar[unfolded df1_def]]
  obtain df' where ex: "labeler_execute c = Inr (c\<lparr>target_vector := Some (map Str (map g [0..<nrows df])), processed_data := Some df'\<rparr>)"
    and gc: "get_col df' col_developer_level = Inr (Column ObjectT (map Str (map g [0..<nrows df])))"
    by blast
  have "\<forall>i e. i < nrows df \<and> vals ec ! i = IntV e \<longrightarrow>
      vals (Column ObjectT (map Str (map g [0..<nrows df]))) ! i
        = Str (labeling_rules (py_lower (py_str (fillna_empty (vals tc ! i)))) e)"
    by (simp add: g_def months_def)
  then show ?thesis using ex gc by (intro exI conjI) (assumption | simp)+
qed

lemma labeler_no_experience:
  assumes pd: "processed_data c = Some df" and ne: "\<not> has_col df col_experience_months"
    and lt: "labeler_titles df = Inr titles"
  shows "\<exists>df'. labeler_execute c =
           Inr (c\<lparr>target_vector := Some (map (\<lambda>i. Str (title_only_rules (py_lower (py_str (vals titles ! i))))) [0..<nrows df]),
                   processed_data := Some df'\<rparr>)
         \<and> get_col df' col_developer_level =
             Inr (Column ObjectT (map (\<lambda>i. Str (title_only_rules (py_lower (py_str (vals titles ! i))))) [0..<nrows df]))"
proof -
  define df1 where "df1 = set_col df col_job_title titles"
  define g where "g = (\<lambda>i. title_only_rules (py_lower (py_str (vals titles ! i))))"
  have row: "determine_level (row_at df1 i) = Inr (g i)" for i
  proof -
    have "map_of (cols df) col_experience_months = None"
      using ne by (simp add: has_col_def columns_def map_of_eq_None_iff)
    then have m_e: "map_of (cols df1) col_experience_months = None"
      using labeler_names_distinct by (simp add: df1_def cols_set_col)
    have m_t: "map_of (cols df1) col_job_title = Some titles"
      by (simp add: df1_def cols_set_col)
    have r_e: "row_get (row_at df1 i) col_experience_months (IntV 0) = IntV 0"
      by (simp add: row_get_row_at m_e)
    have r_t: "row_get (row_at df1 i) col_job_title (Str []) = vals titles ! i"
      by (simp add: row_get_row_at m_t)
    show ?thesis
      using determine_level_rules[OF r_e] by (simp add: r_t g_def title_only_rules_eq)
  qed
  have n1: "nrows df1 = nrows df"
    by (simp add: df1_def)
  have "collect (map (\<lambda>i. determine_level (row_at df1 i)) [0..<nrows df]) = Inr (map g [0..<nrows df])"
    by (rule collect_map_Inr) (simp add: row)
  then have ar: "apply_rows determine_level df1 = Inr (map g [0..<nrows df])"
    by (simp add: apply_rows_def rows_def n1 comp_def)
  from labeler_execute_unfold[OF pd lt ar[unfolded df1_def]]
  show ?thesis by (auto simp: g_def comp_def)
qed

lemma demo_table_facts:
  "wf_df demo_table"
  "processed_data (container_of demo_table) = Some demo_table"
  "get_col demo_table job_title_col =
     Inr (Column ObjectT [Str (asc ''Junior Team Lead''), Str (asc ''Junior Team Lead'')])"
  "get_col demo_table col_experience_months = Inr (Column Int64T [IntV 40, IntV 10])"
  "nrows demo_table = 2"
  using labeler_names_distinct
  by (simp_all add: wf_df_def demo_table_def nrows_def columns_def container_of_def get_col_def)

lemma junior_team_lead_rules:
  "labeling_rules (py_lower (asc ''Junior Team Lead'')) 40 = asc ''Senior''"
  "labeling_rules (py_lower (asc ''Junior Team Lead'')) 10 = asc ''Junior''"
  by (simp_all add: labeling_rules_def eval_str)

lemma no_experience_table_facts:
  "processed_data (container_of no_experience_table) = Some no_experience_table"
  "\<not> has_col no_experience_table col_experience_months"
  "labeler_titles no_experience_table = Inr (Column ObjectT [Str (asc ''Junior Team Lead'')])"
  "nrows no_experience_table = 1"
  using labeler_names_distinct
  by (simp_all add: container_of_def no_experience_table_def has_col_def columns_def
      labeler_titles_def get_col_def astype_str_def nrows_def)

lemma junior_team_lead_label:
  "title_only_rules (py_lower (asc ''Junior Team Lead'')) = asc ''Junior''"
  "any_in SENIOR_INDICATORS (py_lower (asc ''Junior Team Lead''))"
  by (simp_all add: title_only_rules_def eval_str)

text \<open>
  C1. For every row the label follows the ordered rules, applied to the lowercased job
  title and the months of experience: on a table that has the title column and an
  integer \<open>experience_months\<close> column the stage succeeds, and the label of row \<open>i\<close> is
  \<open>labeling_rules\<close> of the lowercased title of row \<open>i\<close> (a missing title counting as the
  empty string) and of its months. The per-row function of the chained variant follows
  the same rules on its lowercased title.
\<close>

theorem labeler_follows_rules:
  assumes "processed_data c = Some df" and "wf_df df"
    and "get_col df job_title_col = Inr tc"
    and "get_col df col_experience_months = Inr ec"
    and "list_all is_int_cell (vals ec)"
  shows "(\<exists>c' df' lc. labeler_execute c = Inr c' \<and> processed_data c' = Some df'
      \<and> get_col df' col_developer_level = Inr lc \<and> length (vals lc) = nrows df
      \<and> (\<forall>i e. i < nrows df \<and> vals ec ! i = IntV e \<longrightarrow>
             vals lc ! i = Str (labeling_rules (py_lower (py_str (fillna_empty (vals tc ! i)))) e)))
    \<and> (\<forall>r t e. map_of r col_title = Some (Str t)
            \<and> row_get r col_experience_months (IntV 0) = IntV e \<longrightarrow>
          handler_label r = Inr (labeling_rules t e))"
  using labeler_labels[OF assms] handler_label_rules by blast

theorem labeler_follows_rules_witness:
  "wf_df demo_table \<and>
   (\<exists>c' df' lc. labeler_execute (container_of demo_table) = Inr c' \<and> processed_data c' = Some df'
      \<and> get_col df' col_developer_level = Inr lc
      \<and> vals lc ! 0 = Str (asc ''Senior'') \<and> vals lc ! 1 = Str (asc ''Junior''))"
proof -
  let ?tc = "Column ObjectT [Str (asc ''Junior Team Lead''), Str (asc ''Junior Team Lead'')]"
  let ?ec = "Column Int64T [IntV 40, IntV 10]"
  have ints: "list_all is_int_cell (vals ?ec)"
    by simp
  from labeler_follows_rules[OF demo_table_facts(2) demo_table_facts(1) demo_table_facts(3)
      demo_table_facts(4) ints]
  obtain c' df' lc where ex: "labeler_execute (container_of demo_table) = Inr c'"
      "processed_data c' = Some df'" "get_col df' col_developer_level = Inr lc"
    and rules: "\<forall>i e. i < nrows demo_table \<and> vals ?ec ! i = IntV e \<longrightarrow>
             vals lc ! i = Str (labeling_rules (py_lower (py_str (fillna_empty (vals ?tc ! i)))) e)"
    by blast
  from rules[rule_format, of 0 40] have l0: "vals lc ! 0 = Str (asc ''Senior'')"
    by (simp add: demo_table_facts(5) junior_team_lead_rules)
  from rules[rule_format, of 1 10] have l1: "vals lc ! 1 = Str (asc ''Junior'')"
    by (simp add: demo_table_facts(5) junior_team_lead_rules)
  show ?thesis using demo_table_facts(1) ex l0 l1 by blast
qed

lemma handler_names_distinct:
  "col_title \<noteq> job_title_col" "col_title \<noteq> col_experience_months" "col_title \<noteq> col_grade"
  "col_title \<noteq> col_last_position" "col_grade \<noteq> job_title_col"
  "col_grade \<noteq> col_experience_months" "col_grade \<noteq> col_last_position"
  by (simp_all add: col_title_def job_title_col_def col_experience_months_def col_grade_def
      col_last_position_def asc_def)

lemma label_grade_process_columns:
  assumes "label_grade_process str_lower ctx = Inr ctx'"
  shows "\<exists>df'. ctx_df ctx' = Some df' \<and> \<not> has_col df' job_title_col
      \<and> \<not> has_col df' col_experience_months \<and> \<not> has_col df' col_title
      \<and> \<not> has_col df' col_last_position \<and> has_col df' col_grade"
proof -
  from assms obtain df titles grades df3 where
    d: "drop_cols (set_col (set_col df col_title titles) col_grade (Column ObjectT (map Str grades)))
          (handler_cols_to_drop
            (set_col (set_col df col_title titles) col_grade (Column ObjectT (map Str grades))))
        = Inr df3"
    and c': "ctx_df ctx' = Some df3"
    by (auto simp: label_grade_process_def Let_def and_then_Inr split: option.splits)
  show ?thesis
    using c' handler_names_distinct
    by (auto simp: has_col_drop_cols[OF d] handler_cols_to_drop_def has_col_set_col)
qed

lemma no_experience_table_process:
  "label_grade_process str_lower_strings \<lparr>ctx_df = Some no_experience_table, ctx_target = None\<rparr>
     = Inr \<lparr>ctx_df = Some \<lparr>index = [IntV 0],
                             cols = [(col_grade, Column ObjectT [Str (asc ''Junior'')])]\<rparr>,
            ctx_target = Some [Str (asc ''Junior'')]\<rparr>"
proof -
  have m: "map_of [(job_title_col, Str (asc ''Junior Team Lead'')),
      (col_title, Str (py_lower (asc ''Junior Team Lead'')))] col_title
        = Some (Str (py_lower (asc ''Junior Team Lead'')))"
    using handler_names_distinct by simp
  have e: "row_get [(job_title_col, Str (asc ''Junior Team Lead'')),
      (col_title, Str (py_lower (asc ''Junior Team Lead'')))] col_experience_months (IntV 0)
        = IntV 0"
    using handler_names_distinct labeler_names_distinct by (simp add: row_get_def)
  have l: "handler_label [(job_title_col, Str (asc ''Junior Team Lead'')),
      (col_title, Str (py_lower (asc ''Junior Team Lead'')))] = Inr (asc ''Junior'')"
    using handler_label_rules[OF m e]
    by (simp add: title_only_rules_eq[symmetric] junior_team_lead_label)
  show ?thesis
    using handler_names_distinct l
    by (simp add: label_grade_process_def handler_titles_def and_then_def has_col_def columns_def
        no_experience_table_def get_col_def series_map_def str_lower_strings_def set_col_def
        apply_rows_def rows_def row_at_def nrows_def drop_cols_def handler_cols_to_drop_def
        infer_dtype_def)
qed

text \<open>
  C2. Whenever the labeling stage returns, the table it leaves has no raw job-title
  column, no \<open>experience_months\<close> column and no helper column \<open>_job_title\<close>, and it has
  the target column \<open>developer_level\<close>, whose cells are also the container's target
  vector. The labeling handler of the chained variant, whenever it returns, likewise
  leaves a table without the raw job-title column, \<open>experience_months\<close>, its helper
  column \<open>_title\<close> and the last-position column, and with its target column \<open>grade\<close>.
\<close>

theorem labeler_removes_sources:
  assumes "labeler_execute c = Inr c'"
  shows "(\<exists>df'. processed_data c' = Some df' \<and> \<not> has_col df' job_title_col
      \<and> \<not> has_col df' col_experience_months \<and> \<not> has_col df' col_job_title
      \<and> has_col df' col_developer_level
      \<and> (\<exists>lc. get_col df' col_developer_level = Inr lc \<and> target_vector c' = Some (vals lc)))
    \<and> (\<forall>str_lower ctx ctx'. label_grade_process str_lower ctx = Inr ctx' \<longrightarrow>
         (\<exists>df'. ctx_df ctx' = Some df' \<and> \<not> has_col df' job_title_col
            \<and> \<not> has_col df' col_experience_months \<and> \<not> has_col df' col_title
            \<and> \<not> has_col df' col_last_position \<and> has_col df' col_grade))"
proof -
  from labeler_execute_Inr[OF assms] obtain df titles labels where
    pd: "processed_data c = Some df" and lt: "labeler_titles df = Inr titles"
    and ar: "apply_rows determine_level (set_col df col_job_title titles) = Inr labels"
    by blast
  from labeler_execute_unfold[OF pd lt ar] obtain df' where
    ex: "labeler_execute c = Inr (c\<lparr>target_vector := Some (map Str labels), processed_data := Some df'\<rparr>)"
    and gc: "get_col df' col_developer_level = Inr (Column ObjectT (map Str labels))"
    and hc: "\<forall>k. has_col df' k \<longleftrightarrow> k = col_developer_level \<or>
                  (has_col df k \<and> k \<noteq> col_job_title \<and> k \<noteq> job_title_col \<and> k \<noteq> col_experience_months)"
    by blast
  have c': "c' = c\<lparr>target_vector := Some (map Str labels), processed_data := Some df'\<rparr>"
    using ex assms by simp
  have "\<not> has_col df' job_title_col" "\<not> has_col df' col_experience_months"
       "\<not> has_col df' col_job_title" "has_col df' col_developer_level"
    using hc labeler_names_distinct by auto
  then have "\<exists>df'. processed_data c' = Some df' \<and> \<not> has_col df' job_title_col
      \<and> \<not> has_col df' col_experience_months \<and> \<not> has_col df' col_job_title
      \<and> has_col df' col_developer_level
      \<and> (\<exists>lc. get_col df' col_developer_level = Inr lc \<and> target_vector c' = Some (vals lc))"
    using c' gc by simp
  then show ?thesis
    using label_grade_process_columns by blast
qed

theorem labeler_removes_sources_witness:
  "(\<exists>c'. labeler_execute (container_of demo_table) = Inr c' \<and>
     (\<exists>df'. processed_data c' = Some df' \<and> \<not> has_col df' job_title_col
      \<and> \<not> has_col df' col_experience_months \<and> \<not> has_col df' col_job_title
      \<and> has_col df' col_developer_level
      \<and> (\<exists>lc. get_col df' col_developer_level = Inr lc \<and> target_vector c' = Some (vals lc))))
   \<and> (\<exists>ctx' df'. label_grade_process str_lower_strings
          \<lparr>ctx_df = Some no_experience_table, ctx_target = None\<rparr> = Inr ctx'
        \<and> ctx_df ctx' = Some df' \<and> \<not> has_col df' job_title_col \<and> \<not> has_col df' col_title
        \<and> has_col df' col_grade)"
proof -
  have "list_all is_int_cell (vals (Column Int64T [IntV 40, IntV 10]))"
    by simp
  from labeler_labels[OF demo_table_facts(2) demo_table_facts(1) demo_table_facts(3)
      demo_table_facts(4) this]
  obtain c' where ex: "labeler_execute (container_of demo_table) = Inr c'"
    by blast
  from labeler_removes_sources[OF ex] ex no_experience_table_process show ?thesis
    by blast
qed

text \<open>
  C10 (as amended). When the table has no \<open>experience_months\<close> column the labeling stage
  still succeeds, every row is labeled as if its experience were zero, and every label
  is one of Junior, Middle, Senior: the label is Junior when the lowercased title has a
  Junior indicator (whether or not it also has a Senior or Middle indicator) or no
  indicator at all, Senior when it has a Senior indicator and no Junior one, and Middle
  when it has only a Middle indicator.
\<close>

theorem labeler_without_experience:
  assumes "processed_data c = Some df" and "\<not> has_col df col_experience_months"
    and "labeler_titles df = Inr titles"
  shows "\<exists>c' df' lc. labeler_execute c = Inr c' \<and> processed_data c' = Some df'
      \<and> get_col df' col_developer_level = Inr lc
      \<and> vals lc = map (\<lambda>i. Str (title_only_rules (py_lower (py_str (vals titles ! i))))) [0..<nrows df]
      \<and> set (vals lc) \<subseteq> {Str (asc ''Junior''), Str (asc ''Middle''), Str (asc ''Senior'')}"
proof -
  from labeler_no_experience[OF assms] obtain df' where
    ex: "labeler_execute c =
           Inr (c\<lparr>target_vector := Some (map (\<lambda>i. Str (title_only_rules (py_lower (py_str (vals titles ! i))))) [0..<nrows df]),
                   processed_data := Some df'\<rparr>)"
    and gc: "get_col df' col_developer_level =
             Inr (Column ObjectT (map (\<lambda>i. Str (title_only_rules (py_lower (py_str (vals titles ! i))))) [0..<nrows df]))"
    by blast
  have "set (map (\<lambda>i. Str (title_only_rules (py_lower (py_str (vals titles ! i))))) [0..<nrows df])
      \<subseteq> {Str (asc ''Junior''), Str (asc ''Middle''), Str (asc ''Senior'')}"
    using labeling_rules_closed by (auto simp: title_only_rules_eq)
  then show ?thesis using ex gc by (intro exI conjI) (assumption | simp)+
qed

theorem labeler_without_experience_witness:
  "\<exists>c' df' lc. labeler_execute (container_of no_experience_table) = Inr c' \<and> processed_data c' = Some df'
      \<and> get_col df' col_developer_level = Inr lc \<and> vals lc = [Str (asc ''Junior'')]"
proof -
  from labeler_without_experience[OF no_experience_table_facts(1-3)]
  have "\<exists>c' df' lc. labeler_execute (container_of no_experience_table) = Inr c' \<and> processed_data c' = Some df'
      \<and> get_col df' col_developer_level = Inr lc \<and> vals lc = [Str (asc ''Junior'')]
      \<and> set (vals lc) \<subseteq> {Str (asc ''Junior''), Str (asc ''Middle''), Str (asc ''Senior'')}"
    by (simp add: no_experience_table_facts(4) junior_team_lead_label(1))
  then show ?thesis by blast
qed

text \<open>
  The claim as worded fails: the title \<open>Junior Team Lead\<close> has a Senior indicator
  (\<open>lead\<close>), and without an experience column its label is Junior.
\<close>

theorem senior_title_without_experience_counterexample:
  "any_in SENIOR_INDICATORS (py_lower (asc ''Junior Team Lead'')) \<and>
   (\<exists>c'. labeler_execute (container_of no_experience_table) = Inr c'
       \<and> target_vector c' = Some [Str (asc ''Junior'')])"
proof -
  from labeler_no_experience[OF no_experience_table_facts(1-3)]
  have "\<exists>c'. labeler_execute (container_of no_experience_table) = Inr c'
       \<and> target_vector c' = Some [Str (asc ''Junior'')]"
    by (auto simp: no_experience_table_facts(4) junior_team_lead_label(1))
  then show ?thesis using junior_team_lead_label(2) by simp
qed

subsection \<open>Splitting and indexing\<close>

lemma split_acc_not_Nil: "split_acc sep acc s \<noteq> []"
  by (induction s arbitrary: acc) auto

lemma hd_split_acc: "hd (split_acc sep acc s) = rev acc @ takeWhile (\<lambda>c. c \<noteq> sep) s"
  by (induction s arbitrary: acc) auto

lemma py_index_0: "py_index xs 0 = (if xs = [] then Inl IndexError else Inr (hd xs))"
  by (cases xs) (simp_all add: py_index_def)

lemma py_index_split_0:
  "py_index (py_split sep s) 0 = Inr (takeWhile (\<lambda>c. c \<noteq> sep) s)"
  by (simp add: py_index_0 py_split_def split_acc_not_Nil hd_split_acc)

lemma py_index_2:
  "py_index xs 2 = (if length xs < 3 then Inl IndexError else Inr (xs ! 2))"
  by (auto simp: py_index_def Let_def)

lemma py_int_error: "py_int s = Inl e \<Longrightarrow> e = ValueError"
  by (auto simp: py_int_def int_body_def split: list.splits if_splits sum.splits)

subsection \<open>Resume freshness\<close>

lemma resume_year_token:
  "resume_year s = (case year_token s of None \<Rightarrow> Inl IndexError | Some token \<Rightarrow> py_int token)"
  by (simp add: resume_year_def year_token_def py_index_2 py_index_split_0)

lemma is_old_resume_spec: "is_old_resume v = Inr (resume_old_spec v)"
proof (cases v)
  case (Str s)
  show ?thesis
  proof (cases "resume_year s")
    case (Inl e)
    then have "e = IndexError \<or> e = ValueError"
      by (auto simp: resume_year_token split: option.splits dest: py_int_error)
    with Inl Str show ?thesis
      by (auto simp: resume_old_spec_def resume_year_token split: option.splits)
  next
    case (Inr y)
    with Str show ?thesis
      by (auto simp: resume_old_spec_def resume_year_token split: option.splits)
  qed
qed (simp_all add: resume_old_spec_def)

lemma is_old_spec: "is_old v = Inr (resume_old_spec v)"
proof (cases v)
  case (Str s)
  then show ?thesis
    by (cases "resume_year s")
       (auto simp: resume_old_spec_def resume_year_token split: option.splits)
qed (simp_all add: resume_old_spec_def)

subsection \<open>Digits\<close>

text \<open>Below U+0660 the decimal digits are the ASCII digits.\<close>

lemma digit_block_low:
  "c < 1632 \<Longrightarrow> digit_block c = (if 48 \<le> c \<and> c \<le> 57 then Some 48 else None)"
  by (simp add: digit_block_def decimal_blocks_def)

lemma is_digit_low: "c < 1632 \<Longrightarrow> is_digit c = (48 \<le> c \<and> c \<le> 57)"
  by (simp add: is_digit_def digit_block_low)

lemma digit_value_low: "c < 1632 \<Longrightarrow> digit_value c = (if 48 \<le> c \<and> c \<le> 57 then c - 48 else 0)"
  by (simp add: digit_value_def digit_block_low)

lemma is_digit_char_low:
  "c < 1632 \<Longrightarrow> is_digit_char c = (48 \<le> c \<and> c \<le> 57 \<or> c = 178 \<or> c = 179 \<or> c = 185)"
  by (auto simp: is_digit_char_def is_digit_low other_digit_ranges_def)





lemma digit_is_digit_char: "is_digit c \<Longrightarrow> is_digit_char c"
  by (simp add: is_digit_char_def)

lemmas eval_digits = is_digit_low digit_value_low is_digit_char_low nat_of_digits_def
  is_int_space_def int_strip_def

lemmas eval_split = py_split_def py_index_def py_strip_def is_space_def eval_digits
  py_int_def int_body_def valid_int_body_def replace_nbsp_def
  py_isdigit_def py_float_def sublist_code(3)

lemmas eval_blocks = is_digit_def digit_value_def digit_block_def decimal_blocks_def

text \<open>
  \<open>int\<close> and \<open>float\<close> read the decimal digits of every script by their value (here the
  Arabic-Indic 3 before an ASCII 5) and refuse a superscript digit; \<open>int\<close> keeps the
  separator control U+001C, which \<open>strip\<close> would drop, and so refuses the string.
\<close>

lemma py_int_examples:
  "py_int [1635, 53] = Inr 35"
  "py_int [28, 53] = Inl ValueError"
  "py_int (asc '' -1_000 '') = Inr (- 1000)"
  "py_int [178] = Inl ValueError"
  by (simp_all add: py_int_def int_body_def valid_int_body_def nat_of_digits_def is_int_space_def
      int_strip_def is_space_def sublist_code(3) eval_blocks asc_def)

lemma py_float_examples:
  "py_float [1635, 53] = Inr 35"
  "py_float [53, 178] = Inl ValueError"
  "py_float [] = Inl ValueError"
  by (simp_all add: py_float_def nat_of_digits_def eval_blocks)

text \<open>
  C9. The resume-freshness parser never raises: for every cell, both variants return a
  number, and it is 1 exactly when the cell is a string whose year token (third
  \<open>.\<close>-separated field, up to its first space) parses as an integer at most 2018, and 0
  in every other case.
\<close>

theorem resume_parser_total:
  "is_old_resume v = Inr (resume_old_spec v) \<and> is_old v = Inr (resume_old_spec v)
   \<and> resume_old_spec v \<in> {0, 1}
   \<and> (resume_old_spec v = 1 \<longleftrightarrow>
        (\<exists>s token year. v = Str s \<and> year_token s = Some token \<and> py_int token = Inr year
           \<and> year \<le> 2018))"
proof -
  have "resume_old_spec v \<in> {0, 1}"
    by (auto simp: resume_old_spec_def split: cell.splits option.splits sum.splits)
  moreover have "resume_old_spec v = 1 \<longleftrightarrow>
        (\<exists>s token year. v = Str s \<and> year_token s = Some token \<and> py_int token = Inr year
           \<and> year \<le> 2018)"
    by (auto simp: resume_old_spec_def split: cell.splits option.splits sum.splits)
  ultimately show ?thesis
    using is_old_resume_spec is_old_spec by blast
qed

theorem resume_parser_total_witness:
  "is_old_resume (Str (asc ''16.04.2018 15:59'')) = Inr 1
   \<and> is_old_resume (Str (asc ''16.04.2019 15:59'')) = Inr 0
   \<and> is_old_resume (Str (asc ''yesterday'')) = Inr 0
   \<and> is_old_resume NaN = Inr 0 \<and> is_old NaN = Inr 0"
proof -
  have "resume_old_spec (Str (asc ''16.04.2018 15:59'')) = 1"
    by (simp add: resume_old_spec_def year_token_def eval_split asc_def)
  moreover have "resume_old_spec (Str (asc ''16.04.2019 15:59'')) = 0"
    by (simp add: resume_old_spec_def year_token_def eval_split asc_def)
  moreover have "resume_old_spec (Str (asc ''yesterday'')) = 0"
    by (simp add: resume_old_spec_def year_token_def eval_split asc_def)
  moreover have "resume_old_spec NaN = 0"
    by (simp add: resume_old_spec_def)
  ultimately show ?thesis
    using resume_parser_total[of "Str (asc ''16.04.2018 15:59'')"]
      resume_parser_total[of "Str (asc ''16.04.2019 15:59'')"]
      resume_parser_total[of "Str (asc ''yesterday'')"]
      resume_parser_total[of NaN]
    by simp
qed

subsection \<open>Gender\<close>

lemma parse_gender_Str:
  "parse_gender (Str s) = Inr (if py_strip (first_token s) \<in> set male_values then 0 else 1)"
  by (simp add: py_index_split_0 first_token_def)

lemma extract_gender_Str:
  "extract_gender (Str s) = Inr (if py_strip (first_token s) \<in> set male_values then 0 else 1)"
  by (simp add: py_index_split_0 first_token_def)

text \<open>
  C5 (as amended). For a string cell, both variants classify the row from the first
  comma-separated token: male (0) exactly when that token, stripped, is one of the male
  literals, female (1) otherwise. For a cell that is not a string the staged variant
  returns 0 (male) and the chained variant raises.
\<close>

theorem gender_from_first_token:
  "parse_gender (Str s) = Inr (if py_strip (first_token s) \<in> set male_values then 0 else 1)
   \<and> extract_gender (Str s) = Inr (if py_strip (first_token s) \<in> set male_values then 0 else 1)
   \<and> ((\<forall>t. v \<noteq> Str t) \<longrightarrow> parse_gender v = Inr 0 \<and> extract_gender v = Inl AttributeError)"
proof -
  have "(\<forall>t. v \<noteq> Str t) \<longrightarrow> parse_gender v = Inr 0 \<and> extract_gender v = Inl AttributeError"
    by (cases v) simp_all
  then show ?thesis
    using parse_gender_Str extract_gender_Str by simp
qed

theorem gender_from_first_token_witness:
  "parse_gender (Str (asc ''Male , 30'')) = Inr 0
   \<and> parse_gender (Str (asc ''Female , 30'')) = Inr 1
   \<and> (\<forall>t. NaN \<noteq> Str t) \<and> parse_gender NaN = Inr 0 \<and> extract_gender NaN = Inl AttributeError"
proof -
  have m: "py_strip (first_token (asc ''Male , 30'')) \<in> set male_values"
    by (simp add: first_token_def male_values_def eval_split asc_def)
  have f: "py_strip (first_token (asc ''Female , 30'')) \<notin> set male_values"
    by (simp add: first_token_def male_values_def eval_split asc_def)
  show ?thesis
    using gender_from_first_token[of "asc ''Male , 30''" NaN]
      gender_from_first_token[of "asc ''Female , 30''" NaN] m f
    by simp
qed

text \<open>
  The claim as worded fails on a missing cell: the staged variant classifies it male
  (0), not female (1), and the chained variant raises.
\<close>

theorem missing_gender_counterexample:
  "parse_gender NaN = Inr 0 \<and> parse_gender NaN \<noteq> Inr 1 \<and> extract_gender NaN = Inl AttributeError"
  by simp

subsection \<open>Salary\<close>












subsection \<open>Experience: the search against the specification's wording\<close>

















declare extract_months.simps(1) [simp del]

lemmas eval_months = extract_months.simps(1) YEAR_WORDS_def MONTH_WORDS_def months_of_match_def asc_def
  is_space_def py_int_def int_body_def valid_int_body_def eval_digits sublist_code(3)

text \<open>
  The class \<open>\d\<close> also matches the digits of other scripts: an Arabic-Indic 3 before
  the year word \<open>goda\<close> counts as three years.
\<close>

lemma extract_months_other_script:
  "extract_months (Str ([1635, 32] @ [1075, 1086, 1076, 1072])) = Inr 36"
  by (simp add: extract_months.simps(1) YEAR_WORDS_def MONTH_WORDS_def months_of_match_def
      is_space_def py_int_def int_body_def valid_int_body_def nat_of_digits_def is_int_space_def
      int_strip_def sublist_code(3) eval_blocks)



subsection \<open>Extraction stages keep the rows\<close>

lemma update_member:
  "p \<in> set (AList.update k v al) \<Longrightarrow> p = (k, v) \<or> p \<in> set al"
  by (induction al) (auto split: if_splits)

lemma get_col_member: "get_col df k = Inr c \<Longrightarrow> (k, c) \<in> set (cols df)"
  by (auto simp: get_col_def split: option.splits dest: map_of_SomeD)

lemma series_apply_length: "series_apply f c = Inr c' \<Longrightarrow> length (vals c') = length (vals c)"
  by (auto simp: series_apply_def split: sum.splits dest: collect_length)

lemma keeps_rows_refl: "keeps_rows new df df"
  by (simp add: keeps_rows_def)

lemma keeps_rows_trans:
  assumes "keeps_rows a df df1" and "keeps_rows b df1 df2"
  shows "keeps_rows (a @ b) df df2"
proof -
  have "get_col df2 k = get_col df k" if "has_col df2 k" and "k \<notin> set (a @ b)" for k
  proof -
    from that assms(2) have 1: "get_col df2 k = get_col df1 k"
      by (simp add: keeps_rows_def)
    with that(1) have "has_col df1 k"
      by (simp add: has_col_get_col)
    with that(2) assms(1) have "get_col df1 k = get_col df k"
      by (simp add: keeps_rows_def)
    with 1 show ?thesis by simp
  qed
  with assms show ?thesis
    by (simp add: keeps_rows_def)
qed

lemma keeps_rows_mono: "keeps_rows a df df' \<Longrightarrow> set a \<subseteq> set b \<Longrightarrow> keeps_rows b df df'"
  by (auto simp: keeps_rows_def)

lemma set_col_keeps:
  assumes "full_columns df \<Longrightarrow> length (vals c) = nrows df"
  shows "keeps_rows [new] df (set_col df new c)"
proof -
  have "full_columns (set_col df new c)" if f: "full_columns df"
  proof -
    have "length (vals (snd p)) = nrows df" if "p \<in> set (AList.update new c (cols df))" for p
      using update_member[OF that] f assms by (auto simp: full_columns_def list_all_iff)
    then show ?thesis
      by (simp add: full_columns_def list_all_iff set_col_def nrows_def)
  qed
  then show ?thesis
    by (simp add: keeps_rows_def get_col_set_col)
qed

lemma derive_col_keeps:
  assumes "derive_col df new src f = Inr df'"
  shows "keeps_rows [new] df df'"
proof -
  from assms obtain c c' where c: "get_col df src = Inr c" and a: "series_apply f c = Inr c'"
    and df': "df' = set_col df new c'"
    by (auto simp: derive_col_def and_then_Inr)
  have "length (vals c') = nrows df" if "full_columns df"
    using that get_col_member[OF c] series_apply_length[OF a]
    by (auto simp: full_columns_def list_all_iff)
  then show ?thesis
    unfolding df' by (rule set_col_keeps)
qed

lemma drop_cols_keeps:
  assumes "drop_cols df names = Inr df'"
  shows "keeps_rows [] df df'"
proof -
  from drop_cols_Inr[OF assms] have i: "index df' = index df"
    and c: "cols df' = filter (\<lambda>p. fst p \<notin> set names) (cols df)"
    by simp_all
  have g: "get_col df' k = get_col df k" if "has_col df' k" for k
  proof -
    from that have "k \<notin> set names"
      by (auto simp: has_col_def columns_def c)
    then show ?thesis
      by (rule get_col_drop_cols[OF assms])
  qed
  have "full_columns df \<longrightarrow> full_columns df'"
    by (auto simp: full_columns_def list_all_iff c nrows_def i)
  with i g show ?thesis
    by (simp add: keeps_rows_def)
qed

lemma derive_then_drop_keeps:
  assumes "and_then (derive_col df new src f) (\<lambda>df1. drop_cols df1 names) = Inr df'"
  shows "keeps_rows [new] df df'"
proof -
  from assms obtain df1 where "derive_col df new src f = Inr df1" "drop_cols df1 names = Inr df'"
    by (auto simp: and_then_Inr)
  then show ?thesis
    using keeps_rows_trans[OF derive_col_keeps drop_cols_keeps] by fastforce
qed

lemma add_flags_keeps:
  "add_flags pre src categories df = Inr df' \<Longrightarrow>
     keeps_rows (map (\<lambda>p. pre @ fst p) categories) df df'"
proof (induction categories arbitrary: df)
  case Nil
  then show ?case by (simp add: keeps_rows_refl)
next
  case (Cons category rest)
  from Cons.prems obtain df1 where
    1: "derive_col df (pre @ fst category) src (keyword_flag (snd category)) = Inr df1"
    and 2: "add_flags pre src rest df1 = Inr df'"
    by (auto simp: and_then_Inr)
  from keeps_rows_trans[OF derive_col_keeps[OF 1] Cons.IH[OF 2]] show ?case
    by simp
qed

lemma flags_then_drop_keeps:
  assumes "and_then (add_flags pre src categories df) (\<lambda>df1. drop_cols df1 names) = Inr df'"
  shows "keeps_rows (map (\<lambda>p. pre @ fst p) categories) df df'"
proof -
  from assms obtain df1 where "add_flags pre src categories df = Inr df1"
    "drop_cols df1 names = Inr df'"
    by (auto simp: and_then_Inr)
  then show ?thesis
    using keeps_rows_trans[OF add_flags_keeps drop_cols_keeps] by fastforce
qed

lemma on_processed_Inr:
  "on_processed step c = Inr c' \<Longrightarrow>
     \<exists>df df'. processed_data c = Some df \<and> step df = Inr df' \<and> c' = c\<lparr>processed_data := Some df'\<rparr>"
  by (auto simp: on_processed_def split: option.splits sum.splits)

lemma personal_info_keeps:
  assumes "and_then (derive_col df (asc ''gender'') col_personal (int_result parse_gender)) (\<lambda>df1.
       and_then (derive_col df1 (asc ''age'') col_personal (int_result parse_age)) (\<lambda>df2.
       and_then (derive_col df2 (asc ''birth_month'') col_personal (int_result parse_birth_month))
         (\<lambda>df3. drop_cols df3 [col_personal]))) = Inr df'"
  shows "keeps_rows [asc ''gender'', asc ''age'', asc ''birth_month''] df df'"
proof -
  from assms obtain df1 df2 where
    1: "derive_col df (asc ''gender'') col_personal (int_result parse_gender) = Inr df1"
    and 2: "derive_col df1 (asc ''age'') col_personal (int_result parse_age) = Inr df2"
    and 3: "and_then (derive_col df2 (asc ''birth_month'') col_personal (int_result parse_birth_month))
         (\<lambda>df3. drop_cols df3 [col_personal]) = Inr df'"
    by (auto simp: and_then_Inr)
  from keeps_rows_trans[OF derive_col_keeps[OF 1]
      keeps_rows_trans[OF derive_col_keeps[OF 2] derive_then_drop_keeps[OF 3]]]
  show ?thesis by simp
qed

lemma misc_resume_step_keeps:
  "misc_resume_step df = Inr df' \<Longrightarrow> keeps_rows [asc ''resume_old''] df df'"
  by (auto simp: misc_resume_step_def keeps_rows_refl split: if_splits
      dest: derive_then_drop_keeps)

lemma misc_car_step_keeps:
  "misc_car_step df = Inr df' \<Longrightarrow> keeps_rows [asc ''has_car''] df df'"
  by (auto simp: misc_car_step_def keeps_rows_refl split: if_splits
      dest: derive_then_drop_keeps)

lemma drop_if_present_keeps:
  "drop_if_present name df = Inr df' \<Longrightarrow> keeps_rows [] df df'"
  by (auto simp: drop_if_present_def keeps_rows_refl split: if_splits dest: drop_cols_keeps)

lemma misc_keeps:
  assumes "and_then (misc_resume_step df) (\<lambda>df1.
       and_then (misc_car_step df1) (\<lambda>df2.
       and_then (drop_if_present col_last_place df2) (drop_if_present col_last_position))) = Inr df'"
  shows "keeps_rows [asc ''resume_old'', asc ''has_car''] df df'"
proof -
  from assms obtain df1 df2 df3 where
    1: "misc_resume_step df = Inr df1" and 2: "misc_car_step df1 = Inr df2"
    and 3: "drop_if_present col_last_place df2 = Inr df3"
    and 4: "drop_if_present col_last_position df3 = Inr df'"
    by (auto simp: and_then_Inr)
  from keeps_rows_trans[OF misc_resume_step_keeps[OF 1]
      keeps_rows_trans[OF misc_car_step_keeps[OF 2]
        keeps_rows_trans[OF drop_if_present_keeps[OF 3] drop_if_present_keeps[OF 4]]]]
  show ?thesis by simp
qed

lemma on_processed_keeps:
  assumes "on_processed step c = Inr c'"
    and "\<And>df df'. step df = Inr df' \<Longrightarrow> keeps_rows new df df'"
  shows "\<exists>df df'. processed_data c = Some df \<and> processed_data c' = Some df'
      \<and> keeps_rows new df df'"
proof -
  from on_processed_Inr[OF assms(1)] obtain df df' where
    "processed_data c = Some df" "step df = Inr df'" "c' = c\<lparr>processed_data := Some df'\<rparr>"
    by blast
  with assms(2) show ?thesis by auto
qed

lemma extractor_keeps_rows:
  assumes "extractor_execute st c = Inr c'"
  shows "\<exists>df df'. processed_data c = Some df \<and> processed_data c' = Some df'
      \<and> keeps_rows (derived_columns st) df df'"
proof (cases st)
  case PersonalInfo
  from assms show ?thesis
    unfolding PersonalInfo extractor_execute.simps derived_columns.simps personal_info_execute_def
    by (rule on_processed_keeps) (rule personal_info_keeps)
next
  case Salary
  from assms show ?thesis
    unfolding Salary extractor_execute.simps derived_columns.simps salary_execute_def
    by (rule on_processed_keeps) (rule derive_then_drop_keeps)
next
  case Experience
  from assms show ?thesis
    unfolding Experience extractor_execute.simps derived_columns.simps experience_execute_def
    by (rule on_processed_keeps) (rule derive_then_drop_keeps)
next
  case Location
  from assms show ?thesis
    unfolding Location extractor_execute.simps derived_columns.simps location_execute_def
    by (rule on_processed_keeps) (rule derive_then_drop_keeps)
next
  case Employment
  from assms show ?thesis
    unfolding Employment extractor_execute.simps derived_columns.simps employment_execute_def
    by (rule on_processed_keeps) (rule flags_then_drop_keeps)
next
  case Schedule
  from assms show ?thesis
    unfolding Schedule extractor_execute.simps derived_columns.simps schedule_execute_def
    by (rule on_processed_keeps) (rule flags_then_drop_keeps)
next
  case Education
  from assms show ?thesis
    unfolding Education extractor_execute.simps derived_columns.simps education_execute_def
    by (rule on_processed_keeps) (rule flags_then_drop_keeps)
next
  case Misc
  from assms show ?thesis
    unfolding Misc extractor_execute.simps derived_columns.simps misc_execute_def
    by (rule on_processed_keeps) (rule misc_keeps)
qed

text \<open>
  C6. Whenever one of the eight extraction stages returns, the table it leaves has the
  row labels of the table it was given, in the same order, and so the same number of
  rows; every column that is still there and is not one the stage writes has exactly
  the cells it had; and if every column had one cell per row, every column still has.
\<close>

theorem extractors_keep_rows:
  assumes "extractor_execute st c = Inr c'"
  shows "\<exists>df df'. processed_data c = Some df \<and> processed_data c' = Some df'
      \<and> index df' = index df \<and> nrows df' = nrows df
      \<and> (\<forall>k. has_col df' k \<and> k \<notin> set (derived_columns st) \<longrightarrow>
             has_col df k \<and> get_col df' k = get_col df k)
      \<and> (full_columns df \<longrightarrow> full_columns df')"
proof -
  from extractor_keeps_rows[OF assms] obtain df df' where
    pd: "processed_data c = Some df" "processed_data c' = Some df'"
    and k: "keeps_rows (derived_columns st) df df'"
    by blast
  from k have i: "index df' = index df"
    and g: "\<forall>k. has_col df' k \<and> k \<notin> set (derived_columns st) \<longrightarrow> get_col df' k = get_col df k"
    and f: "full_columns df \<longrightarrow> full_columns df'"
    by (simp_all add: keeps_rows_def)
  from g have "\<forall>k. has_col df' k \<and> k \<notin> set (derived_columns st) \<longrightarrow>
             has_col df k \<and> get_col df' k = get_col df k"
    by (metis has_col_get_col)
  with pd i f show ?thesis
    by (auto simp: nrows_def)
qed

lemma experience_table_run:
  "extractor_execute Experience (container_of experience_table) =
     Inr (container_of
       \<lparr>index = [IntV 7, IntV 3],
        cols = [(asc ''age'', Column Int64T [IntV 30, IntV 41]),
                (col_experience_months, Column Int64T [IntV 60, IntV 0])]\<rparr>)"
  by (simp add: experience_execute_def on_processed_def container_of_def experience_table_def
      derive_col_def and_then_def get_col_def series_apply_def int_result_def set_col_def
      drop_cols_def has_col_def columns_def infer_dtype_def col_experience_def
      col_experience_months_def eval_months)

theorem extractors_keep_rows_witness:
  "full_columns experience_table \<and>
   (\<exists>c' df'. extractor_execute Experience (container_of experience_table) = Inr c'
      \<and> processed_data c' = Some df' \<and> index df' = [IntV 7, IntV 3] \<and> nrows df' = 2
      \<and> has_col df' (asc ''age'')
      \<and> get_col df' (asc ''age'') = Inr (Column Int64T [IntV 30, IntV 41])
      \<and> full_columns df')"
proof -
  have f: "full_columns experience_table"
    by (simp add: full_columns_def experience_table_def nrows_def)
  have a: "asc ''age'' \<notin> set (derived_columns Experience)"
    by (simp add: col_experience_months_def asc_def)
  have g: "get_col experience_table (asc ''age'') = Inr (Column Int64T [IntV 30, IntV 41])"
    by (simp add: get_col_def experience_table_def col_experience_def asc_def)
  from extractors_keep_rows[OF experience_table_run] obtain df' where
    pd: "processed_data (container_of \<lparr>index = [IntV 7, IntV 3],
        cols = [(asc ''age'', Column Int64T [IntV 30, IntV 41]),
                (col_experience_months, Column Int64T [IntV 60, IntV 0])]\<rparr>) = Some df'"
    and i: "index df' = index experience_table" and n: "nrows df' = nrows experience_table"
    and k: "\<forall>k. has_col df' k \<and> k \<notin> set (derived_columns Experience) \<longrightarrow>
             has_col experience_table k \<and> get_col df' k = get_col experience_table k"
    and fc: "full_columns experience_table \<longrightarrow> full_columns df'"
    by (auto simp: container_of_def)
  have h: "has_col df' (asc ''age'')"
    using pd by (auto simp: container_of_def has_col_def columns_def)
  from k h a g have "get_col df' (asc ''age'') = Inr (Column Int64T [IntV 30, IntV 41])"
    by simp
  with pd i n fc f h experience_table_run show ?thesis
    by (auto simp: experience_table_def nrows_def)
qed

subsection \<open>The split stage without its target\<close>

lemma splitter_no_target:
  "processed_data c = Some df \<Longrightarrow> \<not> has_col df col_developer_level \<Longrightarrow>
     splitter_execute c = ([target_not_found], Inr c)"
  by (simp add: splitter_execute_def)

lemma notes_table_no_target: "\<not> has_col notes_table col_developer_level"
  by (simp add: has_col_def columns_def notes_table_def col_developer_level_def asc_def)

text \<open>
  C3 (as amended). When the target column is absent, the split stage does not raise: it
  logs one error message and returns the container it was given, unchanged, so the
  feature matrix, the feature names and the target vector are whatever they were
  before the stage.
\<close>

theorem splitter_without_target:
  assumes "processed_data c = Some df" and "\<not> has_col df col_developer_level"
  shows "splitter_execute c = ([target_not_found], Inr c)"
  using assms by (rule splitter_no_target)

theorem splitter_without_target_witness:
  "processed_data (container_of notes_table) = Some notes_table
   \<and> \<not> has_col notes_table col_developer_level
   \<and> splitter_execute (container_of notes_table) = ([target_not_found], Inr (container_of notes_table))"
proof -
  have pd: "processed_data (container_of notes_table) = Some notes_table"
    by (simp add: container_of_def)
  from splitter_without_target[OF pd notes_table_no_target] pd notes_table_no_target
  show ?thesis by simp
qed

text \<open>
  The claim as worded fails: on a table without the target column the stage returns
  normally, and the container it returns has no feature matrix and no target vector.
\<close>

theorem splitter_returns_silently_counterexample:
  "snd (splitter_execute (container_of notes_table)) = Inr (container_of notes_table)
   \<and> feature_matrix (container_of notes_table) = None
   \<and> target_vector (container_of notes_table) = None
   \<and> feature_labels (container_of notes_table) = []"
proof -
  have "processed_data (container_of notes_table) = Some notes_table"
    by (simp add: container_of_def)
  from splitter_no_target[OF this notes_table_no_target] show ?thesis
    by (simp add: container_of_def)
qed

subsection \<open>Categorical encoding\<close>

lemma first_seen_keys:
  "distinct (map cell_key (first_seen seen vs))
   \<and> set (map cell_key (first_seen seen vs)) = cell_key ` set vs - set seen"
proof (induction vs arbitrary: seen)
  case Nil
  show ?case by simp
next
  case (Cons v vs)
  show ?case
  proof (cases "cell_key v \<in> set seen")
    case True
    with Cons[of seen] show ?thesis by auto
  next
    case False
    with Cons[of "cell_key v # seen"] show ?thesis by auto
  qed
qed

lemma length_first_seen:
  "length (first_seen [] vs) = card (cell_key ` set vs)"
proof -
  have "length (first_seen [] vs) = length (map cell_key (first_seen [] vs))"
    by simp
  also have "\<dots> = card (set (map cell_key (first_seen [] vs)))"
    using distinct_card[OF first_seen_keys[of "[]" vs, THEN conjunct1]] by simp
  also have "\<dots> = card (cell_key ` set vs)"
    using first_seen_keys[of "[]" vs] by simp
  finally show ?thesis .
qed

lemma length_levels: "length (levels (vals c)) = observed_count c"
proof -
  have "length (levels (vals c)) = length (first_seen [] (observed (vals c)))"
    using sum_length_filter_compl[of is_str_cell "first_seen [] (observed (vals c))"]
    by (simp add: levels_def Let_def)
  then show ?thesis
    by (simp add: length_first_seen observed_count_def)
qed

lemma length_dummies_1d:
  "length (dummies_1d name c) = (if observed_count c = 0 then 0 else observed_count c - 1)"
  by (simp add: dummies_1d_def length_levels)

lemma names_dummies_1d:
  "map fst (dummies_1d name c) = map (\<lambda>l. name @ [95] @ py_str l) (tl (levels (vals c)))"
  by (simp add: dummies_1d_def comp_def)

lemma remove1_map_fst:
  "distinct (map fst xs) \<Longrightarrow> remove1 k (map fst xs) = map fst (filter (\<lambda>p. fst p \<noteq> k) xs)"
proof (induction xs)
  case Nil
  show ?case by simp
next
  case (Cons a xs)
  show ?case
  proof (cases "fst a = k")
    case True
    with Cons.prems have "k \<notin> fst ` set xs"
      by simp
    then have "\<forall>p \<in> set xs. fst p \<noteq> k"
      by (auto simp: image_iff)
    then have "filter (\<lambda>p. fst p \<noteq> k) xs = xs"
      by (simp add: filter_id_conv)
    with True show ?thesis by simp
  next
    case False
    with Cons show ?thesis by auto
  qed
qed

lemma categorical_cols_filter:
  assumes "distinct (columns df)"
  shows "categorical_cols df =
     map fst (filter (\<lambda>p. dtype (snd p) = ObjectT \<and> fst p \<noteq> col_developer_level) (cols df))"
proof -
  have "distinct (map fst (filter (\<lambda>p. dtype (snd p) = ObjectT) (cols df)))"
    using assms by (simp add: columns_def distinct_map_filter)
  then show ?thesis
    by (simp add: categorical_cols_def object_columns_def remove1_map_fst conj_commute)
qed

lemma target_not_categorical:
  "distinct (columns df) \<Longrightarrow> col_developer_level \<notin> set (categorical_cols df)"
  by (auto simp: categorical_cols_filter)

lemma get_col_distinct:
  "distinct (columns df) \<Longrightarrow> p \<in> set (cols df) \<Longrightarrow> get_col df (fst p) = Inr (snd p)"
  by (cases p) (simp add: get_col_def columns_def)

lemma categorical_member:
  assumes "distinct (columns df)" and "p \<in> set (cols df)"
  shows "fst p \<in> set (categorical_cols df)
     \<longleftrightarrow> dtype (snd p) = ObjectT \<and> fst p \<noteq> col_developer_level"
proof
  assume "fst p \<in> set (categorical_cols df)"
  then obtain q where q: "q \<in> set (cols df)" "dtype (snd q) = ObjectT"
      "fst q \<noteq> col_developer_level" "fst q = fst p"
    by (auto simp: categorical_cols_filter[OF assms(1)])
  from assms q have "q = p"
    by (metis columns_def eq_key_imp_eq_value prod.collapse)
  with q show "dtype (snd p) = ObjectT \<and> fst p \<noteq> col_developer_level"
    by simp
next
  assume "dtype (snd p) = ObjectT \<and> fst p \<noteq> col_developer_level"
  with assms(2) show "fst p \<in> set (categorical_cols df)"
    by (auto simp: categorical_cols_filter[OF assms(1)] intro!: image_eqI[of _ _ p])
qed

lemma get_dummies_categorical:
  assumes d: "distinct (columns df)"
  shows "get_dummies df (categorical_cols df) =
     Inr (df\<lparr>cols := filter (\<lambda>p. fst p \<notin> set (categorical_cols df)) (cols df)
                 @ concat (map (\<lambda>p. dummies_1d (fst p) (snd p))
                     (filter (\<lambda>p. fst p \<in> set (categorical_cols df)) (cols df)))\<rparr>)"
proof -
  define cats where
    "cats = filter (\<lambda>p. dtype (snd p) = ObjectT \<and> fst p \<noteq> col_developer_level) (cols df)"
  have names: "categorical_cols df = map fst cats"
    by (simp add: categorical_cols_filter[OF d] cats_def)
  have same: "filter (\<lambda>p. fst p \<in> set (categorical_cols df)) (cols df) = cats"
    unfolding cats_def by (rule filter_cong) (simp_all add: categorical_member[OF d])
  have "collect (map (\<lambda>p. and_then (get_col df (fst p)) (\<lambda>c. Inr (dummies_1d (fst p) c))) cats)
      = Inr (map (\<lambda>p. dummies_1d (fst p) (snd p)) cats)"
    by (rule collect_map_Inr) (simp add: cats_def get_col_distinct[OF d] and_then_def)
  then have "get_dummies df (map fst cats) =
     Inr (df\<lparr>cols := filter (\<lambda>p. fst p \<notin> set (map fst cats)) (cols df)
                 @ concat (map (\<lambda>p. dummies_1d (fst p) (snd p)) cats)\<rparr>)"
    by (simp add: get_dummies_def and_then_def comp_def)
  then show ?thesis
    unfolding same names[symmetric] .
qed

lemma restore_cols_present:
  "list_all (has_col d) ns \<Longrightarrow> restore_cols df ns d = Inr d"
  by (induction ns) simp_all

lemma encoder_step_result:
  assumes d: "distinct (columns df)"
  shows "encoder_step df =
     Inr (df\<lparr>cols := filter (\<lambda>p. fst p \<notin> set (categorical_cols df)) (cols df)
                 @ concat (map (\<lambda>p. dummies_1d (fst p) (snd p))
                     (filter (\<lambda>p. fst p \<in> set (categorical_cols df)) (cols df)))\<rparr>)"
proof (cases "categorical_cols df = []")
  case True
  then show ?thesis
    by (simp add: encoder_step_def)
next
  case False
  define kept where "kept = filter (\<lambda>p. fst p \<notin> set (categorical_cols df)) (cols df)"
  define enc where "enc = df\<lparr>cols := kept
                 @ concat (map (\<lambda>p. dummies_1d (fst p) (snd p))
                     (filter (\<lambda>p. fst p \<in> set (categorical_cols df)) (cols df)))\<rparr>"
  have gd: "get_dummies df (categorical_cols df) = Inr enc"
    by (simp add: get_dummies_categorical[OF d] enc_def kept_def)
  have kept_has: "has_col enc (fst p)" if "p \<in> set (cols df)" "fst p \<notin> set (categorical_cols df)" for p
    using that by (auto simp: has_col_def columns_def enc_def kept_def intro!: image_eqI[of _ _ p])
  have "has_col enc n" if "n \<in> set (remove1 col_developer_level (other_columns df))" for n
  proof -
    from that have "n \<in> set (other_columns df)"
      using set_remove1_subset by fast
    then obtain p where p: "p \<in> set (cols df)" "dtype (snd p) \<noteq> ObjectT" "fst p = n"
      by (auto simp: other_columns_def)
    from p(2) categorical_member[OF d p(1)] have "fst p \<notin> set (categorical_cols df)"
      by simp
    from kept_has[OF p(1) this] p(3) show ?thesis by simp
  qed
  then have rc: "restore_cols df (remove1 col_developer_level (other_columns df)) enc = Inr enc"
    by (intro restore_cols_present) (simp add: list_all_iff)
  have tgt: "set_col enc col_developer_level t = enc"
    if "has_col df col_developer_level" "get_col df col_developer_level = Inr t" for t
  proof -
    from that(2) have m: "map_of (cols df) col_developer_level = Some t"
      by (simp add: get_col_def split: option.splits)
    have "map_of kept col_developer_level = Some t"
      unfolding kept_def using m target_not_categorical[OF d]
      by (simp add: map_of_filter_notin)
    then have "map_of (cols enc) col_developer_level = Some t"
      by (simp add: enc_def map_add_def)
    then show ?thesis
      by (simp add: set_col_def update_triv)
  qed
  show ?thesis
  proof (cases "has_col df col_developer_level")
    case True
    then obtain t where t: "get_col df col_developer_level = Inr t"
      by (auto simp: has_col_get_col)
    with True False gd rc tgt[OF True t] show ?thesis
      by (simp add: encoder_step_def and_then_def enc_def kept_def)
  next
    case no: False
    with False gd rc show ?thesis
      by (simp add: encoder_step_def and_then_def enc_def kept_def)
  qed
qed

lemma encoder_execute_result:
  assumes "processed_data c = Some df" and "distinct (columns df)"
  shows "encoder_execute c =
     Inr (c\<lparr>processed_data := Some
       (df\<lparr>cols := filter (\<lambda>p. fst p \<notin> set (categorical_cols df)) (cols df)
                 @ concat (map (\<lambda>p. dummies_1d (fst p) (snd p))
                     (filter (\<lambda>p. fst p \<in> set (categorical_cols df)) (cols df)))\<rparr>)\<rparr>)"
  using assms by (simp add: encoder_execute_def on_processed_def encoder_step_result)

lemma categorical_cols_set:
  assumes "distinct (columns df)"
  shows "set (categorical_cols df) =
     {n. \<exists>col. (n, col) \<in> set (cols df) \<and> dtype col = ObjectT \<and> n \<noteq> col_developer_level}"
  by (force simp: categorical_cols_filter[OF assms])

lemmas eval_levels = levels_def observed_def dummies_1d_def observed_count_def asc_def

lemma region_table_facts:
  "processed_data (container_of region_table) = Some region_table"
  "distinct (columns region_table)"
  "categorical_cols region_table = [asc ''region'']"
  by (simp_all add: container_of_def region_table_def columns_def categorical_cols_def
      object_columns_def col_developer_level_def asc_def)

lemma region_levels:
  "levels [Str (asc ''Other''), Str (asc ''Belarus''), Str (asc ''Other''),
           Str (asc ''Kazakhstan'')]
     = [Str (asc ''Belarus''), Str (asc ''Kazakhstan''), Str (asc ''Other'')]"
  by (simp add: eval_levels)

lemma notes_table_facts:
  "processed_data (container_of notes_table) = Some notes_table"
  "distinct (columns notes_table)"
  "categorical_cols notes_table = [asc ''notes'']"
  by (simp_all add: container_of_def notes_table_def columns_def categorical_cols_def
      object_columns_def col_developer_level_def asc_def)

text \<open>
  C8 (as amended). On a table whose column names are distinct the encoding stage
  succeeds and keeps the rows; the columns it encodes are exactly the object-typed
  columns other than the target, so the target is never among them; each encoded
  column is replaced by its indicator columns, placed after the columns that are
  kept; the indicators of a column are named by the column name, \<open>_\<close> and the value,
  one for every level but the first; and a column with \<open>k\<close> distinct observed values
  gets \<open>k - 1\<close> indicator columns when \<open>k\<close> is at least 1, and none when it has no
  observed value.
\<close>

theorem encoder_indicator_columns:
  assumes "processed_data c = Some df" and "distinct (columns df)"
  shows "\<exists>c' df'. encoder_execute c = Inr c' \<and> processed_data c' = Some df'
     \<and> index df' = index df
     \<and> col_developer_level \<notin> set (categorical_cols df)
     \<and> set (categorical_cols df) =
         {n. \<exists>col. (n, col) \<in> set (cols df) \<and> dtype col = ObjectT \<and> n \<noteq> col_developer_level}
     \<and> cols df' = filter (\<lambda>p. fst p \<notin> set (categorical_cols df)) (cols df)
                 @ concat (map (\<lambda>p. dummies_1d (fst p) (snd p))
                     (filter (\<lambda>p. fst p \<in> set (categorical_cols df)) (cols df)))
     \<and> map fst (dummies_1d n col) = map (\<lambda>l. n @ [95] @ py_str l) (tl (levels (vals col)))
     \<and> length (dummies_1d n col) = (if observed_count col = 0 then 0 else observed_count col - 1)"
  using encoder_execute_result[OF assms] target_not_categorical[OF assms(2)]
    categorical_cols_set[OF assms(2)] names_dummies_1d[of n col] length_dummies_1d[of n col]
  by simp

theorem encoder_indicator_columns_witness:
  "distinct (columns region_table) \<and>
   (\<exists>c' df'. encoder_execute (container_of region_table) = Inr c'
      \<and> processed_data c' = Some df'
      \<and> columns df' = [asc ''age'', col_developer_level, asc ''region_Kazakhstan'',
                        asc ''region_Other''])
   \<and> observed_count (Column ObjectT [Str (asc ''Other''), Str (asc ''Belarus''),
        Str (asc ''Other''), Str (asc ''Kazakhstan'')]) = 3
   \<and> length (dummies_1d (asc ''region'') (Column ObjectT [Str (asc ''Other''),
        Str (asc ''Belarus''), Str (asc ''Other''), Str (asc ''Kazakhstan'')])) = 2"
proof -
  let ?col = "Column ObjectT [Str (asc ''Other''), Str (asc ''Belarus''),
        Str (asc ''Other''), Str (asc ''Kazakhstan'')]"
  from encoder_indicator_columns[OF region_table_facts(1,2), of "asc ''region''" ?col]
  obtain c' df' where ex: "encoder_execute (container_of region_table) = Inr c'"
      "processed_data c' = Some df'"
    and cs: "cols df' = filter (\<lambda>p. fst p \<notin> set (categorical_cols region_table)) (cols region_table)
                 @ concat (map (\<lambda>p. dummies_1d (fst p) (snd p))
                     (filter (\<lambda>p. fst p \<in> set (categorical_cols region_table)) (cols region_table)))"
    and len: "length (dummies_1d (asc ''region'') ?col)
        = (if observed_count ?col = 0 then 0 else observed_count ?col - 1)"
    by blast
  have d: "map fst (dummies_1d (asc ''region'') ?col) = [asc ''region_Kazakhstan'', asc ''region_Other'']"
    by (simp add: dummies_1d_def region_levels) (simp add: asc_def)
  have "columns df' = [asc ''age'', col_developer_level, asc ''region_Kazakhstan'',
                        asc ''region_Other'']"
    unfolding columns_def cs region_table_facts(3)
    using d by (simp add: region_table_def col_developer_level_def) (simp add: asc_def)
  moreover have l2: "length (dummies_1d (asc ''region'') ?col) = 2"
    using arg_cong[OF d, of length] by simp
  moreover from len l2 have "observed_count ?col = 3"
    by (simp split: if_splits)
  ultimately show ?thesis
    using ex region_table_facts(2) by blast
qed

text \<open>
  The claim as worded fails for a column without any observed value: the text column
  of \<open>notes_table\<close> holds only missing cells, so it has 0 distinct observed values, and
  the stage gives it no indicator column (not \<open>0 - 1\<close> of them).
\<close>

theorem empty_column_counterexample:
  "observed_count (Column ObjectT [NaN, NaN]) = 0
   \<and> dummies_1d (asc ''notes'') (Column ObjectT [NaN, NaN]) = []
   \<and> int (length (dummies_1d (asc ''notes'') (Column ObjectT [NaN, NaN])))
        \<noteq> int (observed_count (Column ObjectT [NaN, NaN])) - 1
   \<and> encoder_execute (container_of notes_table) =
        Inr (container_of \<lparr>index = [IntV 0, IntV 1],
                           cols = [(asc ''age'', Column Int64T [IntV 30, IntV 41])]\<rparr>)"
proof -
  have 1: "observed_count (Column ObjectT [NaN, NaN]) = 0"
    by (simp add: observed_count_def observed_def)
  have 2: "dummies_1d (asc ''notes'') (Column ObjectT [NaN, NaN]) = []"
    by (simp add: dummies_1d_def levels_def observed_def)
  have 3: "encoder_execute (container_of notes_table) =
        Inr (container_of \<lparr>index = [IntV 0, IntV 1],
                           cols = [(asc ''age'', Column Int64T [IntV 30, IntV 41])]\<rparr>)"
    unfolding encoder_execute_result[OF notes_table_facts(1,2)] notes_table_facts(3)
    using 2 by (simp add: notes_table_def container_of_def) (simp add: asc_def)
  from 1 2 3 show ?thesis by simp
qed

end
